theory Spec2Isabelle
  imports Main "HOL-Library.Sublist" "HOL-Library.AList"
begin

section \<open>The gCTS repository proxy of sapcli (sap/rest/gcts.py)\<close>

text \<open>
  The module talks JSON with a remote gCTS service through a connection object and
  keeps, per repository, a lazily fetched snapshot and a configuration list. The
  embedding follows the Python text function by function. Python values that come
  from or go to the wire are JSON values; an exception is a value of \<open>exn\<close> on the
  left of a sum; the proxy object and the remote system are explicit state. A call of
  the module logger (\<open>mod_log()\<close>) changes no value and lets no exception of its own
  escape (a logging handler formats the record and reports a failure on the error
  stream); what is modelled of such a call is the evaluation of its arguments, which
  the caller performs: \<open>str(ex)\<close> in \<open>simple_clone\<close> is the one argument that can raise.
\<close>

subsection \<open>JSON values and the Python operations applied to them\<close>

text \<open>
  \<open>JNull\<close> is Python's \<open>None\<close>. \<open>JObj\<close> is a Python \<open>dict\<close>: it keeps its keys in
  insertion order, and a key is any hashable value. An object parsed from a JSON text
  has strings as keys; \<open>dict.update\<close> with a sequence of pairs can add \<open>None\<close>, \<open>True\<close>
  or \<open>False\<close> as a key. Numbers do not occur: no operation of the module inspects one.
\<close>

datatype json =
    JNull
  | JBool bool
  | JStr string
  | JList "json list"
  | JObj "(json \<times> json) list"

text \<open>
  The HTTP response object as far as the module reads it: what
  \<open>response.headers.get('Content-Type')\<close> finds, and what \<open>response.json()\<close> parses
  (\<open>None\<close> when the body is not JSON, where the call raises \<open>ValueError\<close>).
\<close>

record response =
  content_type :: "string option"
  body_json :: "json option"

datatype exn =
    HTTPRequestError response
  | GCTSRequestError json
  | GCTSRepoAlreadyExistsError json
  | GCTSRepoNotExistsError json
  | KeyError
  | TypeError
  | AttributeError
  | IndexError
  | ValueError
  | OtherError string

text \<open>Truth value of a JSON value in a Python condition.\<close>

fun truthy :: "json \<Rightarrow> bool" where
  "truthy JNull = False"
| "truthy (JBool b) = b"
| "truthy (JStr s) = (s \<noteq> [])"
| "truthy (JList xs) = (xs \<noteq> [])"
| "truthy (JObj d) = (d \<noteq> [])"

text \<open>\<open>x.get(key, default)\<close>: only a dict has the method.\<close>

fun py_get :: "json \<Rightarrow> string \<Rightarrow> json \<Rightarrow> exn + json" where
  "py_get (JObj d) k dflt = Inr (case map_of d (JStr k) of None \<Rightarrow> dflt | Some v \<Rightarrow> v)"
| "py_get _ k dflt = Inl AttributeError"

text \<open>\<open>x[key]\<close> with a string key: a missing key of a dict is a \<open>KeyError\<close>, every
  other value refuses the subscript with a \<open>TypeError\<close>.\<close>

fun py_getitem :: "json \<Rightarrow> string \<Rightarrow> exn + json" where
  "py_getitem (JObj d) k = (case map_of d (JStr k) of None \<Rightarrow> Inl KeyError | Some v \<Rightarrow> Inr v)"
| "py_getitem _ k = Inl TypeError"

text \<open>\<open>x[key] = v\<close> with a string key.\<close>

fun py_setitem :: "json \<Rightarrow> string \<Rightarrow> json \<Rightarrow> exn + json" where
  "py_setitem (JObj d) k v = Inr (JObj (AList.update (JStr k) v d))"
| "py_setitem _ k v = Inl TypeError"

text \<open>\<open>x[0]\<close>: the first element of a list, the first character of a string; a dict
  has no key \<open>0\<close> (no key is a number).\<close>

fun py_first :: "json \<Rightarrow> exn + json" where
  "py_first (JList []) = Inl IndexError"
| "py_first (JList (x # xs)) = Inr x"
| "py_first (JStr []) = Inl IndexError"
| "py_first (JStr (c # cs)) = Inr (JStr [c])"
| "py_first (JObj d) = Inl KeyError"
| "py_first _ = Inl TypeError"

text \<open>\<open>x.endswith(suffix)\<close>: a method of strings only.\<close>

fun py_endswith :: "json \<Rightarrow> string \<Rightarrow> exn + bool" where
  "py_endswith (JStr s) suf = Inr (suffix suf s)"
| "py_endswith _ suf = Inl AttributeError"

text \<open>Iteration (\<open>for x in v\<close>): a list yields its elements, a string its characters,
  a dict its keys.\<close>

fun py_iter :: "json \<Rightarrow> exn + json list" where
  "py_iter (JList xs) = Inr xs"
| "py_iter (JStr s) = Inr (map (\<lambda>c. JStr [c]) s)"
| "py_iter (JObj d) = Inr (map fst d)"
| "py_iter _ = Inl TypeError"

text \<open>A list or a dict cannot be the key of a dict.\<close>

fun hashable :: "json \<Rightarrow> bool" where
  "hashable (JList xs) = False"
| "hashable (JObj d) = False"
| "hashable _ = True"

text \<open>\<open>d.update(other)\<close> for two dicts: the keys of \<open>other\<close> in their order, each
  replacing the value in place or appended.\<close>

definition dict_update :: "('k \<times> 'v) list \<Rightarrow> ('k \<times> 'v) list \<Rightarrow> ('k \<times> 'v) list" where
  "dict_update d other = foldl (\<lambda>acc kv. AList.update (fst kv) (snd kv) acc) d other"

text \<open>
  When \<open>other\<close> is no dict, \<open>d.update(other)\<close> iterates over it and takes every
  element for a key and a value: the element is turned into a sequence (a
  \<open>TypeError\<close> when it cannot be iterated), which must have exactly two items (a
  \<open>ValueError\<close> otherwise); a list has its elements, a string its characters, a dict
  its keys.
\<close>

definition py_pair :: "json \<Rightarrow> exn + json \<times> json" where
  "py_pair item =
     (case py_iter item of
        Inl e \<Rightarrow> Inl TypeError
      | Inr [k, v] \<Rightarrow> Inr (k, v)
      | Inr _ \<Rightarrow> Inl ValueError)"

text \<open>The pairs are stored one by one; an element that is refused, or whose key is
  unhashable, stops the update with the pairs before it stored.\<close>

fun update_pairs :: "json list \<Rightarrow> (json \<times> json) list \<Rightarrow> (exn + unit) \<times> (json \<times> json) list" where
  "update_pairs [] d = (Inr (), d)"
| "update_pairs (item # rest) d =
     (case py_pair item of
        Inl e \<Rightarrow> (Inl e, d)
      | Inr (k, v) \<Rightarrow>
          if hashable k then update_pairs rest (AList.update k v d)
          else (Inl TypeError, d))"

text \<open>
  \<open>x.update(other)\<close> on JSON values: the outcome, and \<open>x\<close> as the call leaves it (the
  update is in place, also when it raises). Only a dict has the method. A dict
  \<open>other\<close> is merged; any other value is iterated for pairs, so that \<open>[]\<close> and \<open>''\<close>
  change nothing and \<open>None\<close> or a boolean is a \<open>TypeError\<close>.
\<close>

fun py_update :: "json \<Rightarrow> json \<Rightarrow> (exn + unit) \<times> json" where
  "py_update (JObj d) (JObj other) = (Inr (), JObj (dict_update d other))"
| "py_update (JObj d) other =
     (case py_iter other of
        Inl e \<Rightarrow> (Inl e, JObj d)
      | Inr items \<Rightarrow> (case update_pairs items d of (res, d') \<Rightarrow> (res, JObj d')))"
| "py_update x other = (Inl AttributeError, x)"

text \<open>The keys \<open>x.update(other)\<close> binds before it returns or raises.\<close>

fun pair_keys :: "json list \<Rightarrow> json list" where
  "pair_keys [] = []"
| "pair_keys (item # rest) =
     (case py_pair item of
        Inl e \<Rightarrow> []
      | Inr (k, v) \<Rightarrow> if hashable k then k # pair_keys rest else [])"

fun update_keys :: "json \<Rightarrow> json \<Rightarrow> json list" where
  "update_keys (JObj d) (JObj other) = map fst other"
| "update_keys (JObj d) other =
     (case py_iter other of Inl e \<Rightarrow> [] | Inr items \<Rightarrow> pair_keys items)"
| "update_keys x other = []"

subsection \<open>Text of a value inside an f-string\<close>

text \<open>
  \<open>str(v)\<close> as an f-string inserts it: a string stands for itself, \<open>None\<close> and the
  booleans are printed by name, a list or dict is printed with the \<open>repr\<close> of its
  parts (ASCII text: quotes chosen as Python chooses them, backslash escapes for the
  quote, the backslash and every character that is not printable; a character is
  its code point, below 256).
\<close>

definition hex_digit :: "nat \<Rightarrow> char" where
  "hex_digit n = ''0123456789abcdef'' ! (n mod 16)"

definition repr_char :: "char \<Rightarrow> char \<Rightarrow> string" where
  "repr_char q c =
     (if c = q \<or> c = CHR 0x5C then [CHR 0x5C, c]
      else if c = CHR 0x0A then [CHR 0x5C, CHR ''n'']
      else if c = CHR 0x0D then [CHR 0x5C, CHR ''r'']
      else if c = CHR 0x09 then [CHR 0x5C, CHR ''t'']
      else if (of_char c :: nat) < 32 \<or> (of_char c :: nat) = 127 \<or>
              (128 \<le> (of_char c :: nat) \<and> (of_char c :: nat) \<le> 160) \<or> (of_char c :: nat) = 173
        then [CHR 0x5C, CHR ''x'', hex_digit (of_char c div 16), hex_digit (of_char c)]
      else [c])"

definition repr_str :: "string \<Rightarrow> string" where
  "repr_str s =
     (let q = (if CHR 0x27 \<in> set s \<and> CHR 0x22 \<notin> set s then CHR 0x22 else CHR 0x27)
      in [q] @ concat (map (repr_char q) s) @ [q])"

fun join :: "string \<Rightarrow> string list \<Rightarrow> string" where
  "join sep [] = []"
| "join sep [x] = x"
| "join sep (x # y # ys) = x @ sep @ join sep (y # ys)"

fun py_repr :: "json \<Rightarrow> string" where
  "py_repr JNull = ''None''"
| "py_repr (JBool b) = (if b then ''True'' else ''False'')"
| "py_repr (JStr s) = repr_str s"
| "py_repr (JList xs) = ''['' @ join '', '' (map py_repr xs) @ '']''"
| "py_repr (JObj d) =
     ''{'' @ join '', '' (map (\<lambda>kv. py_repr (fst kv) @ '': '' @ py_repr (snd kv)) d) @ ''}''"

fun py_str :: "json \<Rightarrow> string" where
  "py_str (JStr s) = s"
| "py_str v = py_repr v"

subsection \<open>Error classification\<close>

text \<open>\<open>GCTSRepoNotExistsError.__init__\<close>: stores the messages and overwrites their
  \<open>exception\<close> entry.\<close>

definition GCTSRepoNotExistsError_init :: "json \<Rightarrow> exn + exn" where
  "GCTSRepoNotExistsError_init messages =
     (case py_setitem messages ''exception'' (JStr ''Repository does not exist'') of
        Inl e \<Rightarrow> Inl e
      | Inr messages' \<Rightarrow> Inr (GCTSRepoNotExistsError messages'))"

text \<open>\<open>GCTSRequestError.__repr__\<close>, which is also \<open>__str__\<close> of the three gCTS error
  classes: the text is built from \<open>messages["exception"]\<close>.\<close>

definition GCTSRequestError_repr :: "json \<Rightarrow> exn + string" where
  "GCTSRequestError_repr messages =
     (case py_getitem messages ''exception'' of
        Inl e \<Rightarrow> Inl e
      | Inr x \<Rightarrow> Inr (''gCTS exception: '' @ py_str x))"

text \<open>
  \<open>exception_from_http_error(http_error)\<close>, applied to the response the
  \<open>HTTPRequestError\<close> carries. \<open>Inr\<close> is the exception object the function returns,
  \<open>Inl\<close> an exception raised while classifying.
\<close>

definition exception_from_http_error :: "response \<Rightarrow> exn + exn" where
  "exception_from_http_error resp =
     (if \<not> sublist ''application/json''
             (case content_type resp of None \<Rightarrow> [] | Some ct \<Rightarrow> ct)
      then Inr (HTTPRequestError resp)
      else
        (case body_json resp of
           None \<Rightarrow> Inl ValueError
         | Some messages \<Rightarrow>
             (case py_get messages ''log'' JNull of
                Inl e \<Rightarrow> Inl e
              | Inr log \<Rightarrow>
                  (case (if truthy log
                         then (case py_first log of
                                 Inl e \<Rightarrow> Inl e
                               | Inr entry \<Rightarrow>
                                   (case py_get entry ''message'' (JStr []) of
                                      Inl e \<Rightarrow> Inl e
                                    | Inr m \<Rightarrow>
                                        py_endswith m
                                          ''Error action CREATE_REPOSITORY Repository already exists''))
                         else Inr False) of
                     Inl e \<Rightarrow> Inl e
                   | Inr True \<Rightarrow> Inr (GCTSRepoAlreadyExistsError messages)
                   | Inr False \<Rightarrow>
                       (case py_get messages ''exception'' JNull of
                          Inl e \<Rightarrow> Inl e
                        | Inr exception \<Rightarrow>
                            if exception = JStr ''No relation between system and repository''
                            then GCTSRepoNotExistsError_init messages
                            else Inr (GCTSRequestError messages))))))"

subsection \<open>Configuration list and configuration dict\<close>

text \<open>
  The configuration dict is a Python dict whose keys are the \<open>key\<close> values of the
  list's entries. \<open>dict(pairs)\<close> consumes the generator entry by entry: the entry's
  \<open>key\<close> is read first, then its \<open>value\<close> (default \<open>''\<close>), then the pair is stored.
\<close>

type_synonym pydict = "(json \<times> json) list"

fun dict_of_entries :: "json list \<Rightarrow> pydict \<Rightarrow> exn + pydict" where
  "dict_of_entries [] d = Inr d"
| "dict_of_entries (cfg # rest) d =
     (case py_getitem cfg ''key'' of
        Inl e \<Rightarrow> Inl e
      | Inr k \<Rightarrow>
          (case py_get cfg ''value'' (JStr []) of
             Inl e \<Rightarrow> Inl e
           | Inr v \<Rightarrow>
               if hashable k then dict_of_entries rest (AList.update k v d)
               else Inl TypeError))"

definition config_list_to_dict :: "json \<Rightarrow> exn + pydict" where
  "config_list_to_dict config =
     (case py_iter config of
        Inl e \<Rightarrow> Inl e
      | Inr entries \<Rightarrow> dict_of_entries entries [])"

definition config_dict_to_list :: "pydict \<Rightarrow> json" where
  "config_dict_to_list config =
     JList (map (\<lambda>kv. JObj [(JStr ''key'', fst kv), (JStr ''value'', snd kv)]) config)"

subsection \<open>The connection and the remote system\<close>

text \<open>
  The connection class is not part of the module; the module calls three of its
  methods. A connection is therefore a parameter: three functions that answer a call
  from the state \<open>'s\<close> of the remote system and return its next state. An answer is
  a value or a raised exception (\<open>HTTPRequestError\<close> carrying the response, or any
  other). The world a function of the module runs in is the remote state together
  with the list of calls issued so far, which is how the number and order of network
  requests is observed.
\<close>

type_synonym params = "(string \<times> string) list"

datatype call =
    Execute string string "params option"
  | GetJson string
  | PostObjAsJson string json "string option"

record 's connection =
  execute :: "string \<Rightarrow> string \<Rightarrow> params option \<Rightarrow> 's \<Rightarrow> (exn + response) \<times> 's"
  get_json :: "string \<Rightarrow> 's \<Rightarrow> (exn + json) \<times> 's"
  post_obj_as_json :: "string \<Rightarrow> json \<Rightarrow> string option \<Rightarrow> 's \<Rightarrow> (exn + response) \<times> 's"

record 's world =
  remote :: 's
  calls :: "call list"

definition connection_execute ::
  "'s connection \<Rightarrow> string \<Rightarrow> string \<Rightarrow> params option \<Rightarrow> 's world \<Rightarrow> (exn + response) \<times> 's world" where
  "connection_execute c method url ps w =
     (case execute c method url ps (remote w) of
        (res, s) \<Rightarrow> (res, \<lparr>remote = s, calls = calls w @ [Execute method url ps]\<rparr>))"

definition connection_get_json ::
  "'s connection \<Rightarrow> string \<Rightarrow> 's world \<Rightarrow> (exn + json) \<times> 's world" where
  "connection_get_json c url w =
     (case get_json c url (remote w) of
        (res, s) \<Rightarrow> (res, \<lparr>remote = s, calls = calls w @ [GetJson url]\<rparr>))"

definition connection_post_obj_as_json ::
  "'s connection \<Rightarrow> string \<Rightarrow> json \<Rightarrow> string option \<Rightarrow> 's world \<Rightarrow> (exn + response) \<times> 's world" where
  "connection_post_obj_as_json c url obj accept w =
     (case post_obj_as_json c url obj accept (remote w) of
        (res, s) \<Rightarrow> (res, \<lparr>remote = s, calls = calls w @ [PostObjAsJson url obj accept]\<rparr>))"

subsection \<open>The HTTP helper of a repository\<close>

text \<open>
  \<open>except HTTPRequestError as ex: raise exception_from_http_error(ex) from ex\<close>: the
  exception that leaves the handler, whether the classifier returned it or raised it.
  Any other exception passes.
\<close>

fun translated :: "exn \<Rightarrow> exn" where
  "translated (HTTPRequestError resp) =
     (case exception_from_http_error resp of Inl e \<Rightarrow> e | Inr e \<Rightarrow> e)"
| "translated e = e"

text \<open>The decorator \<open>_http_to_gcts_error\<close> around a call's outcome.\<close>

definition http_to_gcts_error :: "(exn + 'a) \<times> 'w \<Rightarrow> (exn + 'a) \<times> 'w" where
  "http_to_gcts_error out =
     (case out of (Inl e, w) \<Rightarrow> (Inl (translated e), w) | (Inr x, w) \<Rightarrow> (Inr x, w))"

text \<open>\<open>_RepositoryHttpProxy\<close>: the URL prefix is \<open>repository/{name}\<close>.\<close>

definition build_url :: "string \<Rightarrow> string option \<Rightarrow> string" where
  "build_url name path =
     (case path of
        None \<Rightarrow> ''repository/'' @ name
      | Some p \<Rightarrow> ''repository/'' @ name @ ''/'' @ p)"

definition http_get ::
  "'s connection \<Rightarrow> string \<Rightarrow> string option \<Rightarrow> params option \<Rightarrow> 's world \<Rightarrow> (exn + response) \<times> 's world" where
  "http_get c name path ps w =
     http_to_gcts_error (connection_execute c ''GET'' (build_url name path) ps w)"

definition http_get_json ::
  "'s connection \<Rightarrow> string \<Rightarrow> string option \<Rightarrow> 's world \<Rightarrow> (exn + json) \<times> 's world" where
  "http_get_json c name path w =
     http_to_gcts_error (connection_get_json c (build_url name path) w)"

definition http_post ::
  "'s connection \<Rightarrow> string \<Rightarrow> string option \<Rightarrow> 's world \<Rightarrow> (exn + response) \<times> 's world" where
  "http_post c name path w =
     http_to_gcts_error (connection_execute c ''POST'' (build_url name path) None w)"

definition http_post_obj_as_json ::
  "'s connection \<Rightarrow> string \<Rightarrow> string option \<Rightarrow> json \<Rightarrow> string option \<Rightarrow> 's world
     \<Rightarrow> (exn + response) \<times> 's world" where
  "http_post_obj_as_json c name path obj accept w =
     http_to_gcts_error (connection_post_obj_as_json c (build_url name path) obj accept w)"

definition http_delete ::
  "'s connection \<Rightarrow> string \<Rightarrow> string option \<Rightarrow> 's world \<Rightarrow> (exn + response) \<times> 's world" where
  "http_delete c name path w =
     http_to_gcts_error (connection_execute c ''DELETE'' (build_url name path) None w)"

subsection \<open>The repository proxy\<close>

text \<open>
  The fields of a \<open>Repository\<close> object: \<open>_name\<close>, \<open>_data\<close> (the snapshot, \<open>None\<close>
  until fetched) and \<open>_config\<close> (the configuration list, \<open>None\<close> until needed). The
  connection is passed to each operation. \<open>_config\<close> is often the very list object
  stored under \<open>_data['config']\<close>, and \<open>_set_configuration_key\<close> changes that list
  in place; \<open>self_config_shared\<close> records when the two are one object, so that the
  change shows in the snapshot as it does in Python.
\<close>

record repository =
  self_name :: string
  self_data :: json
  self_config :: json
  self_config_shared :: bool

text \<open>\<open>Repository.__init__(connection, name, data=None)\<close>.\<close>

definition Repository :: "string \<Rightarrow> json \<Rightarrow> exn + repository" where
  "Repository name data =
     (if truthy data
      then (case py_get data ''config'' JNull of
              Inl e \<Rightarrow> Inl e
            | Inr cfg \<Rightarrow>
                Inr \<lparr>self_name = name, self_data = data, self_config = cfg,
                     self_config_shared = (cfg \<noteq> JNull)\<rparr>)
      else Inr \<lparr>self_name = name, self_data = data, self_config = JNull,
                self_config_shared = False\<rparr>)"

definition fetch_data :: "'s connection \<Rightarrow> repository \<Rightarrow> 's world \<Rightarrow> (exn + json) \<times> 's world" where
  "fetch_data c r w =
     (case http_get_json c (self_name r) None w of
        (Inl e, w') \<Rightarrow> (Inl e, w')
      | (Inr resp, w') \<Rightarrow> (py_getitem resp ''result'', w'))"

fun find_entry :: "json list \<Rightarrow> string \<Rightarrow> exn + nat option" where
  "find_entry [] key = Inr None"
| "find_entry (cfg # rest) key =
     (case py_getitem cfg ''key'' of
        Inl e \<Rightarrow> Inl e
      | Inr k \<Rightarrow>
          if k = JStr key then Inr (Some 0)
          else (case find_entry rest key of
                  Inl e \<Rightarrow> Inl e
                | Inr None \<Rightarrow> Inr None
                | Inr (Some i) \<Rightarrow> Inr (Some (Suc i))))"

text \<open>\<open>config.append(entry)\<close>: a method of lists.\<close>

fun py_append :: "json \<Rightarrow> json \<Rightarrow> exn + json" where
  "py_append (JList xs) x = Inr (JList (xs @ [x]))"
| "py_append _ x = Inl AttributeError"

text \<open>
  \<open>_set_configuration_key(config, key, value)\<close>: \<open>next(...)\<close> stops at the first entry
  whose \<open>key\<close> equals the given one, reading the \<open>key\<close> of every entry before it. The
  result is the list after the change in place.
\<close>

definition set_configuration_key :: "json \<Rightarrow> string \<Rightarrow> json \<Rightarrow> exn + json" where
  "set_configuration_key config key v =
     (case py_iter config of
        Inl e \<Rightarrow> Inl e
      | Inr entries \<Rightarrow>
          (case find_entry entries key of
             Inl e \<Rightarrow> Inl e
           | Inr (Some i) \<Rightarrow>
               if truthy (entries ! i)
               then (case py_setitem (entries ! i) ''value'' v of
                       Inl e \<Rightarrow> Inl e
                     | Inr item \<Rightarrow> Inr (JList (entries[i := item])))
               else py_append config (JObj [(JStr ''key'', JStr key), (JStr ''value'', v)])
           | Inr None \<Rightarrow> py_append config (JObj [(JStr ''key'', JStr key), (JStr ''value'', v)])))"

text \<open>The snapshot after the list it shares with \<open>_config\<close> has changed.\<close>

definition snapshot_with_config :: "json \<Rightarrow> json \<Rightarrow> json" where
  "snapshot_with_config data cfg =
     (case data of JObj d \<Rightarrow> JObj (AList.update (JStr ''config'') cfg d) | _ \<Rightarrow> data)"

definition update_configuration :: "string \<Rightarrow> json \<Rightarrow> repository \<Rightarrow> (exn + json) \<times> repository" where
  "update_configuration key v r =
     (let r1 = (if self_config r = JNull
                then r\<lparr>self_config := JList [], self_config_shared := False\<rparr>
                else r)
      in case set_configuration_key (self_config r1) key v of
           Inl e \<Rightarrow> (Inl e, r1)
         | Inr cfg \<Rightarrow>
             (Inr cfg,
              r1\<lparr>self_config := cfg,
                 self_data := (if self_config_shared r1
                               then snapshot_with_config (self_data r1) cfg
                               else self_data r1)\<rparr>))"

text \<open>\<open>_get_item(item, default=None, fetch=False)\<close>.\<close>

definition get_item ::
  "'s connection \<Rightarrow> string \<Rightarrow> json \<Rightarrow> bool \<Rightarrow> repository \<Rightarrow> 's world
     \<Rightarrow> (exn + json) \<times> repository \<times> 's world" where
  "get_item c item dflt fetch r w =
     (if self_data r = JNull \<or> fetch
      then (case fetch_data c r w of
              (Inl e, w') \<Rightarrow> (Inl e, r, w')
            | (Inr result, w') \<Rightarrow>
                (py_get result item dflt,
                 r\<lparr>self_data := result, self_config_shared := False\<rparr>, w'))
      else (py_get (self_data r) item dflt, r, w))"

definition wipe_data :: "repository \<Rightarrow> repository" where
  "wipe_data r = r\<lparr>self_data := JNull, self_config := JNull, self_config_shared := False\<rparr>"

text \<open>The properties \<open>rid\<close>, \<open>status\<close>, \<open>vsid\<close>, \<open>url\<close>, \<open>branch\<close> and \<open>head\<close>.\<close>

definition rid :: "'s connection \<Rightarrow> repository \<Rightarrow> 's world \<Rightarrow> (exn + json) \<times> repository \<times> 's world" where
  "rid c r w = get_item c ''rid'' JNull False r w"

definition status :: "'s connection \<Rightarrow> repository \<Rightarrow> 's world \<Rightarrow> (exn + json) \<times> repository \<times> 's world" where
  "status c r w = get_item c ''status'' JNull False r w"

definition vsid :: "'s connection \<Rightarrow> repository \<Rightarrow> 's world \<Rightarrow> (exn + json) \<times> repository \<times> 's world" where
  "vsid c r w = get_item c ''vsid'' JNull False r w"

definition url :: "'s connection \<Rightarrow> repository \<Rightarrow> 's world \<Rightarrow> (exn + json) \<times> repository \<times> 's world" where
  "url c r w = get_item c ''url'' JNull False r w"

definition branch :: "'s connection \<Rightarrow> repository \<Rightarrow> 's world \<Rightarrow> (exn + json) \<times> repository \<times> 's world" where
  "branch c r w = get_item c ''branch'' JNull False r w"

definition head :: "'s connection \<Rightarrow> repository \<Rightarrow> 's world \<Rightarrow> (exn + json) \<times> repository \<times> 's world" where
  "head c r w = get_item c ''currentCommit'' JNull False r w"

definition is_cloned :: "'s connection \<Rightarrow> repository \<Rightarrow> 's world \<Rightarrow> (exn + bool) \<times> repository \<times> 's world" where
  "is_cloned c r w =
     (case status c r w of
        (Inl e, r', w') \<Rightarrow> (Inl e, r', w')
      | (Inr st, r', w') \<Rightarrow> (Inr (st \<noteq> JStr ''CREATED''), r', w'))"

definition configuration ::
  "'s connection \<Rightarrow> repository \<Rightarrow> 's world \<Rightarrow> (exn + pydict) \<times> repository \<times> 's world" where
  "configuration c r w =
     (if self_config r = JNull
      then (case get_item c ''config'' JNull False r w of
              (Inl e, r', w') \<Rightarrow> (Inl e, r', w')
            | (Inr cfg, r', w') \<Rightarrow>
                (config_list_to_dict cfg,
                 r'\<lparr>self_config := cfg, self_config_shared := (cfg \<noteq> JNull)\<rparr>, w'))
      else (config_list_to_dict (self_config r), r, w))"

text \<open>
  \<open>create(url, vsid, config=None, role='SOURCE', typ='GITHUB')\<close>. \<open>repo\<close> is the
  snapshot object itself when the snapshot is truthy, and a new empty dict otherwise:
  only in the first case do the changes to \<open>repo\<close> show in \<open>self._data\<close>.
\<close>

definition create_fields :: "string \<Rightarrow> string \<Rightarrow> string \<Rightarrow> string \<Rightarrow> string \<Rightarrow> json" where
  "create_fields name url_arg vsid_arg role typ =
     JObj [(JStr ''rid'', JStr name), (JStr ''name'', JStr name), (JStr ''vsid'', JStr vsid_arg),
           (JStr ''url'', JStr url_arg), (JStr ''role'', JStr role), (JStr ''type'', JStr typ),
           (JStr ''connection'', JStr ''ssl'')]"

text \<open>The first part, up to \<open>repo['config'] = request_config\<close>: the result is \<open>repo\<close>.\<close>

definition create_payload ::
  "string \<Rightarrow> string \<Rightarrow> pydict option \<Rightarrow> string \<Rightarrow> string \<Rightarrow> repository \<Rightarrow> (exn + json) \<times> repository" where
  "create_payload url_arg vsid_arg config role typ r =
     (let in_place = truthy (self_data r);
          repo0 = (if in_place then self_data r else JObj [])
      in case py_update repo0 (create_fields (self_name r) url_arg vsid_arg role typ) of
           (Inl e, repo1) \<Rightarrow> (Inl e, if in_place then r\<lparr>self_data := repo1\<rparr> else r)
         | (Inr u, repo1) \<Rightarrow>
             (let r1 = (if in_place then r\<lparr>self_data := repo1\<rparr> else r)
              in if (case config of None \<Rightarrow> False | Some cfg \<Rightarrow> cfg \<noteq> [])
                 then (case py_get repo1 ''config'' (JList []) of
                         Inl e \<Rightarrow> (Inl e, r1)
                       | Inr existing \<Rightarrow>
                           (case config_list_to_dict existing of
                              Inl e \<Rightarrow> (Inl e, r1)
                            | Inr repo_config \<Rightarrow>
                                (case py_setitem repo1 ''config''
                                        (config_dict_to_list
                                           (dict_update repo_config
                                              (case config of None \<Rightarrow> [] | Some cfg \<Rightarrow> cfg))) of
                                   Inl e \<Rightarrow> (Inl e, r1)
                                 | Inr repo2 \<Rightarrow>
                                     (Inr repo2,
                                      if in_place
                                      then r1\<lparr>self_data := repo2, self_config_shared := False\<rparr>
                                      else r1))))
                 else (Inr repo1, r1)))"

text \<open>The last part, from \<open>if self._data:\<close> on: the reply's \<open>repository\<close> value is
  merged into a truthy snapshot by \<open>update\<close>, and becomes the snapshot otherwise. The
  snapshot stops sharing its list with \<open>_config\<close> when \<open>update\<close> binds \<open>config\<close>.\<close>

definition create_store :: "json \<Rightarrow> repository \<Rightarrow> (exn + unit) \<times> repository" where
  "create_store result r =
     (if truthy (self_data r)
      then (case py_update (self_data r) result of
              (res, merged) \<Rightarrow>
                (res,
                 r\<lparr>self_data := merged,
                   self_config_shared :=
                     (self_config_shared r \<and>
                      JStr ''config'' \<notin> set (update_keys (self_data r) result))\<rparr>))
      else (Inr (), r\<lparr>self_data := result, self_config_shared := False\<rparr>))"

definition create ::
  "'s connection \<Rightarrow> string \<Rightarrow> string \<Rightarrow> pydict option \<Rightarrow> string \<Rightarrow> string \<Rightarrow> repository \<Rightarrow> 's world
     \<Rightarrow> (exn + unit) \<times> repository \<times> 's world" where
  "create c url_arg vsid_arg config role typ r w =
     (case create_payload url_arg vsid_arg config role typ r of
        (Inl e, r1) \<Rightarrow> (Inl e, r1, w)
      | (Inr repo, r1) \<Rightarrow>
          (case connection_post_obj_as_json c ''repository''
                  (JObj [(JStr ''repository'', JStr (self_name r)), (JStr ''data'', repo)])
                  (Some ''application/json'') w of
             (Inl e, w') \<Rightarrow> (Inl (translated e), r1, w')
           | (Inr resp, w') \<Rightarrow>
               (case (case body_json resp of
                        None \<Rightarrow> Inl ValueError
                      | Some j \<Rightarrow> py_getitem j ''repository'') of
                  Inl e \<Rightarrow> (Inl e, r1, w')
                | Inr result \<Rightarrow>
                    (case create_store result r1 of (res, r2) \<Rightarrow> (res, r2, w')))))"

text \<open>\<open>set_config(key, value)\<close> and \<open>get_config(key)\<close>.\<close>

definition set_config ::
  "'s connection \<Rightarrow> string \<Rightarrow> json \<Rightarrow> repository \<Rightarrow> 's world \<Rightarrow> (exn + unit) \<times> repository \<times> 's world" where
  "set_config c key v r w =
     (case http_post_obj_as_json c (self_name r) (Some ''config'')
             (JObj [(JStr ''key'', JStr key), (JStr ''value'', v)]) None w of
        (Inl e, w') \<Rightarrow> (Inl e, r, w')
      | (Inr resp, w') \<Rightarrow>
          (case update_configuration key v r of
             (Inl e, r') \<Rightarrow> (Inl e, r', w')
           | (Inr cfg, r') \<Rightarrow> (Inr (), r', w')))"

definition get_config ::
  "'s connection \<Rightarrow> string \<Rightarrow> repository \<Rightarrow> 's world \<Rightarrow> (exn + json) \<times> repository \<times> 's world" where
  "get_config c key r w =
     (case configuration c r w of
        (Inl e, r1, w1) \<Rightarrow> (Inl e, r1, w1)
      | (Inr config, r1, w1) \<Rightarrow>
          (case map_of config (JStr key) of
             Some v \<Rightarrow> (Inr v, r1, w1)
           | None \<Rightarrow>
               (case http_get_json c (self_name r1) (Some (''config/'' @ key)) w1 of
                  (Inl e, w2) \<Rightarrow> (Inl e, r1, w2)
                | (Inr resp, w2) \<Rightarrow>
                    (case (case py_getitem resp ''result'' of
                             Inl e \<Rightarrow> Inl e
                           | Inr res \<Rightarrow> py_getitem res ''value'') of
                       Inl e \<Rightarrow> (Inl e, r1, w2)
                     | Inr v \<Rightarrow>
                         (case update_configuration key v r1 of
                            (Inl e, r2) \<Rightarrow> (Inl e, r2, w2)
                          | (Inr cfg, r2) \<Rightarrow> (Inr v, r2, w2))))))"

text \<open>The operations that end with \<open>wipe_data()\<close>.\<close>

definition clone ::
  "'s connection \<Rightarrow> repository \<Rightarrow> 's world \<Rightarrow> (exn + response) \<times> repository \<times> 's world" where
  "clone c r w =
     (case http_post c (self_name r) (Some ''clone'') w of
        (Inl e, w') \<Rightarrow> (Inl e, r, w')
      | (Inr resp, w') \<Rightarrow> (Inr resp, wipe_data r, w'))"

definition checkout ::
  "'s connection \<Rightarrow> string \<Rightarrow> repository \<Rightarrow> 's world \<Rightarrow> (exn + json) \<times> repository \<times> 's world" where
  "checkout c target r w =
     (case branch c r w of
        (Inl e, r1, w1) \<Rightarrow> (Inl e, r1, w1)
      | (Inr b, r1, w1) \<Rightarrow>
          (case http_get c (self_name r1) (Some (''branches/'' @ py_str b @ ''/switch''))
                  (Some [(''branch'', target)]) w1 of
             (Inl e, w2) \<Rightarrow> (Inl e, r1, w2)
           | (Inr resp, w2) \<Rightarrow>
               ((case body_json resp of
                   None \<Rightarrow> Inl ValueError
                 | Some j \<Rightarrow> py_getitem j ''result''),
                wipe_data r1, w2)))"

definition log :: "'s connection \<Rightarrow> repository \<Rightarrow> 's world \<Rightarrow> (exn + json) \<times> repository \<times> 's world" where
  "log c r w =
     (case http_get_json c (self_name r) (Some ''getCommit'') w of
        (Inl e, w') \<Rightarrow> (Inl e, r, w')
      | (Inr json_body, w') \<Rightarrow> (py_getitem json_body ''commits'', r, w'))"

definition pull :: "'s connection \<Rightarrow> repository \<Rightarrow> 's world \<Rightarrow> (exn + json) \<times> repository \<times> 's world" where
  "pull c r w =
     (case http_get_json c (self_name r) (Some ''pullByCommit'') w of
        (Inl e, w') \<Rightarrow> (Inl e, r, w')
      | (Inr json_body, w') \<Rightarrow> (Inr json_body, wipe_data r, w'))"

definition delete ::
  "'s connection \<Rightarrow> repository \<Rightarrow> 's world \<Rightarrow> (exn + response) \<times> repository \<times> 's world" where
  "delete c r w =
     (case http_delete c (self_name r) None w of
        (Inl e, w') \<Rightarrow> (Inl e, r, w')
      | (Inr resp, w') \<Rightarrow> (Inr resp, wipe_data r, w'))"

definition commit_transport ::
  "'s connection \<Rightarrow> string \<Rightarrow> string \<Rightarrow> string option \<Rightarrow> repository \<Rightarrow> 's world
     \<Rightarrow> (exn + response) \<times> repository \<times> 's world" where
  "commit_transport c corrnr message description r w =
     (let commit = [(JStr ''message'', JStr message), (JStr ''autoPush'', JStr ''true''),
                    (JStr ''objects'', JList [JObj [(JStr ''object'', JStr corrnr),
                                               (JStr ''type'', JStr ''TRANSPORT'')]])];
          commit' = (case description of
                       None \<Rightarrow> commit
                     | Some d \<Rightarrow> if d \<noteq> [] then AList.update (JStr ''description'') (JStr d) commit
                                 else commit)
      in case http_post_obj_as_json c (self_name r) (Some ''commit'') (JObj commit') None w of
           (Inl e, w') \<Rightarrow> (Inl e, r, w')
         | (Inr resp, w') \<Rightarrow> (Inr resp, wipe_data r, w'))"

text \<open>\<open>set_url(url)\<close>: works on a freshly fetched object, a local of the method; the
  fields of the proxy are neither read nor written.\<close>

definition set_url ::
  "'s connection \<Rightarrow> string \<Rightarrow> repository \<Rightarrow> 's world \<Rightarrow> (exn + response option) \<times> repository \<times> 's world" where
  "set_url c new_url r w =
     (case fetch_data c r w of
        (Inl e, w1) \<Rightarrow> (Inl e, r, w1)
      | (Inr data, w1) \<Rightarrow>
          (case py_getitem data ''url'' of
             Inl e \<Rightarrow> (Inl e, r, w1)
           | Inr current \<Rightarrow>
               if current = JStr new_url then (Inr None, r, w1)
               else (case py_setitem data ''url'' (JStr new_url) of
                       Inl e \<Rightarrow> (Inl e, r, w1)
                     | Inr data' \<Rightarrow>
                         (case http_post_obj_as_json c (self_name r) None data' None w1 of
                            (Inl e, w2) \<Rightarrow> (Inl e, r, w2)
                          | (Inr resp, w2) \<Rightarrow> (Inr (Some resp), r, w2)))))"

subsection \<open>Orchestration\<close>

text \<open>
  \<open>simple_clone(connection, url, name, vsid, start_dir, vcs_token, error_exists, role,
  typ)\<close>. The proxy is created inside, without data, and returned. In the handler
  of the already-exists error, \<open>mod_log().info(str(ex))\<close> evaluates \<open>str(ex)\<close> before
  \<open>repo.wipe_data()\<close> runs.
\<close>

definition clone_config :: "string option \<Rightarrow> string option \<Rightarrow> pydict" where
  "clone_config start_dir vcs_token =
     (let config0 = (case start_dir of
                       None \<Rightarrow> []
                     | Some d \<Rightarrow> if d \<noteq> [] then [(JStr ''VCS_TARGET_DIR'', JStr d)] else [])
      in case vcs_token of
           None \<Rightarrow> config0
         | Some t \<Rightarrow>
             if t \<noteq> [] then AList.update (JStr ''CLIENT_VCS_AUTH_TOKEN'') (JStr t) config0
             else config0)"

definition simple_clone ::
  "'s connection \<Rightarrow> string \<Rightarrow> string \<Rightarrow> string \<Rightarrow> string option \<Rightarrow> string option \<Rightarrow> bool \<Rightarrow> string
     \<Rightarrow> string \<Rightarrow> 's world \<Rightarrow> (exn + repository) \<times> 's world" where
  "simple_clone c url_arg name vsid_arg start_dir vcs_token error_exists role typ w =
     (case Repository name JNull of
        Inl e \<Rightarrow> (Inl e, w)
      | Inr repo \<Rightarrow>
          (case (case create c url_arg vsid_arg (Some (clone_config start_dir vcs_token)) role typ repo w of
                   (Inl (GCTSRepoAlreadyExistsError m), r1, w1) \<Rightarrow>
                     if error_exists then (Inl (GCTSRepoAlreadyExistsError m), r1, w1)
                     else (case GCTSRequestError_repr m of
                             Inl e \<Rightarrow> (Inl e, r1, w1)
                           | Inr msg \<Rightarrow> (Inr (), wipe_data r1, w1))
                 | other \<Rightarrow> other) of
             (Inl e, r1, w1) \<Rightarrow> (Inl e, w1)
           | (Inr u, r1, w1) \<Rightarrow>
               (case is_cloned c r1 w1 of
                  (Inl e, r2, w2) \<Rightarrow> (Inl e, w2)
                | (Inr cloned, r2, w2) \<Rightarrow>
                    if \<not> cloned
                    then (case clone c r2 w2 of
                            (Inl e, r3, w3) \<Rightarrow> (Inl e, w3)
                          | (Inr resp, r3, w3) \<Rightarrow> (Inr r3, w3))
                    else (Inr r2, w2))))"

section \<open>Notions the statements use\<close>

text \<open>The value of a field of a JSON object, when the value is an object and has it.\<close>

fun field :: "json \<Rightarrow> string \<Rightarrow> json option" where
  "field (JObj d) k = map_of d (JStr k)"
| "field _ k = None"

subsection \<open>Classification, in the words of the specification\<close>

definition content_type_header :: "response \<Rightarrow> string" where
  "content_type_header resp = (case content_type resp of None \<Rightarrow> [] | Some ct \<Rightarrow> ct)"

definition messages_of :: "response \<Rightarrow> json" where
  "messages_of resp = (case body_json resp of None \<Rightarrow> JNull | Some m \<Rightarrow> m)"

text \<open>\<open>messages.log\<close> is non-empty and the \<open>message\<close> of its first entry ends with the
  literal suffix.\<close>

definition log_reports_existing :: "json \<Rightarrow> bool" where
  "log_reports_existing messages =
     (case field messages ''log'' of
        Some (JList (entry # rest)) \<Rightarrow>
          (case field entry ''message'' of
             Some (JStr m) \<Rightarrow> suffix ''Error action CREATE_REPOSITORY Repository already exists'' m
           | _ \<Rightarrow> False)
      | _ \<Rightarrow> False)"

definition with_exception :: "json \<Rightarrow> string \<Rightarrow> json" where
  "with_exception messages msg =
     (case messages of JObj d \<Rightarrow>
        JObj (AList.update (JStr ''exception'') (JStr msg) d) | _ \<Rightarrow> messages)"

definition classification :: "response \<Rightarrow> exn" where
  "classification resp =
     (if \<not> sublist ''application/json'' (content_type_header resp) then HTTPRequestError resp
      else if log_reports_existing (messages_of resp)
        then GCTSRepoAlreadyExistsError (messages_of resp)
      else if field (messages_of resp) ''exception'' =
                Some (JStr ''No relation between system and repository'')
        then GCTSRepoNotExistsError (with_exception (messages_of resp) ''Repository does not exist'')
      else GCTSRequestError (messages_of resp))"

text \<open>
  The error body of the service: a JSON object whose \<open>log\<close>, when present, is a list
  of objects whose \<open>message\<close>, when present, is a string.
\<close>

definition log_entry_shaped :: "json \<Rightarrow> bool" where
  "log_entry_shaped entry =
     (case entry of
        JObj f \<Rightarrow> (case map_of f (JStr ''message'') of None \<Rightarrow> True | Some (JStr m) \<Rightarrow> True | Some _ \<Rightarrow> False)
      | _ \<Rightarrow> False)"

definition error_body_shaped :: "response \<Rightarrow> bool" where
  "error_body_shaped resp =
     (case body_json resp of
        Some (JObj d) \<Rightarrow>
          (case map_of d (JStr ''log'') of
             None \<Rightarrow> True
           | Some (JList entries) \<Rightarrow> list_all log_entry_shaped entries
           | Some _ \<Rightarrow> False)
      | _ \<Rightarrow> False)"

text \<open>A transport error the classifier is meant for: when its Content-Type announces
  JSON, its body has that shape.\<close>

definition well_formed_error :: "response \<Rightarrow> bool" where
  "well_formed_error resp =
     (sublist ''application/json'' (content_type_header resp) \<longrightarrow> error_body_shaped resp)"

text \<open>The test on \<open>log\<close> that the classifier makes, named for the proofs.\<close>

definition first_log_test :: "json \<Rightarrow> exn + bool" where
  "first_log_test lg =
     (if truthy lg
      then (case py_first lg of
              Inl e \<Rightarrow> Inl e
            | Inr entry \<Rightarrow>
                (case py_get entry ''message'' (JStr []) of
                   Inl e \<Rightarrow> Inl e
                 | Inr m \<Rightarrow>
                     py_endswith m ''Error action CREATE_REPOSITORY Repository already exists''))
      else Inr False)"

subsection \<open>Configuration entries\<close>

definition entry_key :: "json \<Rightarrow> json" where
  "entry_key cfg = (case field cfg ''key'' of Some k \<Rightarrow> k | None \<Rightarrow> JNull)"

definition entry_value :: "json \<Rightarrow> json" where
  "entry_value cfg = (case field cfg ''value'' of Some v \<Rightarrow> v | None \<Rightarrow> JStr [])"

definition entry_pairs :: "json list \<Rightarrow> pydict" where
  "entry_pairs l = map (\<lambda>cfg. (entry_key cfg, entry_value cfg)) l"

text \<open>The value of the last entry of \<open>l\<close> whose key is \<open>k\<close>.\<close>

definition last_value :: "json list \<Rightarrow> json \<Rightarrow> json option" where
  "last_value l k = map_of (rev (entry_pairs l)) k"

text \<open>An entry of a configuration list: an object that carries a \<open>key\<close> a dict can
  hold (a string, as the service sends it).\<close>

definition config_entry :: "json \<Rightarrow> bool" where
  "config_entry cfg = (case field cfg ''key'' of Some k \<Rightarrow> hashable k | None \<Rightarrow> False)"

definition round_trip :: "json \<Rightarrow> exn + json" where
  "round_trip l =
     (case config_list_to_dict l of Inl e \<Rightarrow> Inl e | Inr d \<Rightarrow> Inr (config_dict_to_list d))"

subsection \<open>Mutating operations and attribute reads\<close>

datatype mutation =
    Clone
  | Checkout string
  | Pull
  | Delete
  | Commit_transport string string "string option"

text \<open>The proxy and the world after a mutating operation that returned; \<open>None\<close> when
  it raised.\<close>

fun returned :: "'s connection \<Rightarrow> mutation \<Rightarrow> repository \<Rightarrow> 's world \<Rightarrow> (repository \<times> 's world) option" where
  "returned c Clone r w =
     (case clone c r w of (Inr x, r', w') \<Rightarrow> Some (r', w') | (Inl e, r', w') \<Rightarrow> None)"
| "returned c (Checkout target) r w =
     (case checkout c target r w of (Inr x, r', w') \<Rightarrow> Some (r', w') | (Inl e, r', w') \<Rightarrow> None)"
| "returned c Pull r w =
     (case pull c r w of (Inr x, r', w') \<Rightarrow> Some (r', w') | (Inl e, r', w') \<Rightarrow> None)"
| "returned c Delete r w =
     (case delete c r w of (Inr x, r', w') \<Rightarrow> Some (r', w') | (Inl e, r', w') \<Rightarrow> None)"
| "returned c (Commit_transport corrnr message description) r w =
     (case commit_transport c corrnr message description r w of
        (Inr x, r', w') \<Rightarrow> Some (r', w') | (Inl e, r', w') \<Rightarrow> None)"

text \<open>The attribute readers, each with the field of the snapshot it reads.\<close>

definition readers ::
  "'s connection \<Rightarrow> (string \<times> (repository \<Rightarrow> 's world \<Rightarrow> (exn + json) \<times> repository \<times> 's world)) list" where
  "readers c =
     [(''rid'', rid c), (''status'', status c), (''vsid'', vsid c), (''url'', url c),
      (''branch'', branch c), (''currentCommit'', head c)]"

definition cleared :: "repository \<Rightarrow> bool" where
  "cleared r = (self_data r = JNull \<and> self_config r = JNull)"

text \<open>
  A read that issues exactly one call, the fetch of the repository resource, and,
  when the fetch brings the object \<open>d\<close>, stores \<open>d\<close> as the snapshot and answers with
  the field of \<open>d\<close>.
\<close>

definition fetches_once ::
  "'s connection \<Rightarrow> string \<Rightarrow> (repository \<Rightarrow> 's world \<Rightarrow> (exn + json) \<times> repository \<times> 's world)
     \<Rightarrow> repository \<Rightarrow> 's world \<Rightarrow> bool" where
  "fetches_once c key reader r w =
     (case reader r w of
        (res, r', w') \<Rightarrow>
          calls w' = calls w @ [GetJson (''repository/'' @ self_name r)] \<and>
          remote w' = snd (get_json c (''repository/'' @ self_name r) (remote w)) \<and>
          (\<forall>j d. fst (get_json c (''repository/'' @ self_name r) (remote w)) = Inr j \<and>
                 field j ''result'' = Some (JObj d) \<longrightarrow>
                 res = Inr (case map_of d (JStr key) of None \<Rightarrow> JNull | Some v \<Rightarrow> v) \<and>
                 self_data r' = JObj d))"

subsection \<open>The configuration cache and the payload of create\<close>

text \<open>
  A configuration cache that is unset, or a list of configuration entries at most one
  of which has the key \<open>k\<close>.
\<close>

definition single_key_cache :: "string \<Rightarrow> json \<Rightarrow> bool" where
  "single_key_cache k cfg =
     (case cfg of
        JNull \<Rightarrow> True
      | JList entries \<Rightarrow>
          list_all config_entry entries \<and>
          length (filter (\<lambda>e. entry_key e = JStr k) entries) \<le> 1
      | _ \<Rightarrow> False)"

text \<open>The identity fields \<open>create\<close> writes, as a dict.\<close>

definition attempted :: "string \<Rightarrow> string \<Rightarrow> string \<Rightarrow> string \<Rightarrow> string \<Rightarrow> (json \<times> json) list" where
  "attempted name u v role typ =
     [(JStr ''rid'', JStr name), (JStr ''name'', JStr name), (JStr ''vsid'', JStr v),
      (JStr ''url'', JStr u), (JStr ''role'', JStr role), (JStr ''type'', JStr typ),
      (JStr ''connection'', JStr ''ssl'')]"

subsection \<open>A small remote system for the concrete runs\<close>

text \<open>
  A service holding at most one repository, \<open>myrepo\<close>; its state is the repository
  object, \<open>JNull\<close> while the repository does not exist. It answers as gCTS does for
  the requests of the module: it stores what is posted, switches the branch, marks
  the repository cloned, and reports a missing or an already existing repository
  with the error bodies the classifier knows.
\<close>

definition json_response :: "json \<Rightarrow> response" where
  "json_response j = \<lparr>content_type = Some ''application/json'', body_json = Some j\<rparr>"

definition not_exists_error :: exn where
  "not_exists_error =
     HTTPRequestError (json_response
       (JObj [(JStr ''exception'', JStr ''No relation between system and repository'')]))"

definition already_exists_body :: json where
  "already_exists_body =
     JObj [(JStr ''log'', JList [JObj [(JStr ''message'',
              JStr ''20200923111743: Error action CREATE_REPOSITORY Repository already exists'')]]),
           (JStr ''exception'', JStr ''Cannot create'')]"

definition already_exists_error :: exn where
  "already_exists_error = HTTPRequestError (json_response already_exists_body)"

definition with_field :: "json \<Rightarrow> string \<Rightarrow> json \<Rightarrow> json" where
  "with_field j k v = (case j of JObj d \<Rightarrow> JObj (AList.update (JStr k) v d) | _ \<Rightarrow> j)"

definition demo_execute :: "string \<Rightarrow> string \<Rightarrow> params option \<Rightarrow> json \<Rightarrow> (exn + response) \<times> json" where
  "demo_execute method path ps s =
     (if s = JNull then (Inl not_exists_error, s)
      else if method = ''POST'' \<and> path = ''repository/myrepo/clone''
        then (Inr (json_response (JObj [])), with_field s ''status'' (JStr ''READY''))
      else if method = ''DELETE'' \<and> path = ''repository/myrepo''
        then (Inr (json_response (JObj [])), JNull)
      else if method = ''GET'' \<and>
              Some path = map_option (\<lambda>b. ''repository/myrepo/branches/'' @ py_str b @ ''/switch'')
                            (field s ''branch'')
        then (case ps of
                Some [(k, target)] \<Rightarrow>
                  (Inr (json_response
                          (JObj [(JStr ''result'', JObj [(JStr ''fromCommit'', JStr ''123''),
                                                   (JStr ''toCommit'', JStr ''456'')])])),
                   with_field s ''branch'' (JStr target))
              | _ \<Rightarrow> (Inl not_exists_error, s))
      else (Inl not_exists_error, s))"

definition demo_get_json :: "string \<Rightarrow> json \<Rightarrow> (exn + json) \<times> json" where
  "demo_get_json path s =
     (if s = JNull then (Inl not_exists_error, s)
      else if path = ''repository/myrepo'' then (Inr (JObj [(JStr ''result'', s)]), s)
      else if path = ''repository/myrepo/pullByCommit''
        then (Inr (JObj [(JStr ''fromCommit'', JStr ''123''), (JStr ''toCommit'', JStr ''456'')]), s)
      else (Inl not_exists_error, s))"

definition demo_post_obj_as_json ::
  "string \<Rightarrow> json \<Rightarrow> string option \<Rightarrow> json \<Rightarrow> (exn + response) \<times> json" where
  "demo_post_obj_as_json path obj accept s =
     (if path = ''repository''
      then (if s \<noteq> JNull then (Inl already_exists_error, s)
            else (case field obj ''data'' of
                    None \<Rightarrow> (Inl (OtherError ''bad request''), s)
                  | Some d \<Rightarrow>
                      (Inr (json_response
                              (JObj [(JStr ''repository'', with_field d ''status'' (JStr ''CREATED''))])),
                       with_field d ''status'' (JStr ''CREATED''))))
      else if s = JNull then (Inl not_exists_error, s)
      else if path = ''repository/myrepo'' then (Inr (json_response (JObj [])), obj)
      else if path = ''repository/myrepo/config'' \<or> path = ''repository/myrepo/commit''
        then (Inr (json_response (JObj [])), s)
      else (Inl not_exists_error, s))"

definition demo :: "json connection" where
  "demo = \<lparr>execute = demo_execute, get_json = demo_get_json,
           post_obj_as_json = demo_post_obj_as_json\<rparr>"

text \<open>The same service, answering the creation of an existing repository with the
  error body \<open>body\<close>.\<close>

definition reporting :: "json \<Rightarrow> json connection" where
  "reporting body =
     demo\<lparr>post_obj_as_json :=
            (\<lambda>path obj accept s.
               if path = ''repository'' \<and> s \<noteq> JNull
               then (Inl (HTTPRequestError (json_response body)), s)
               else demo_post_obj_as_json path obj accept s)\<rparr>"

text \<open>An error body that reports the existing repository in its log only.\<close>

definition already_exists_log_only :: json where
  "already_exists_log_only =
     JObj [(JStr ''log'', JList [JObj [(JStr ''message'',
              JStr ''20200923111743: Error action CREATE_REPOSITORY Repository already exists'')]])]"

definition myrepo_on_develop :: json where
  "myrepo_on_develop =
     JObj [(JStr ''rid'', JStr ''myrepo''), (JStr ''name'', JStr ''myrepo''),
           (JStr ''url'', JStr ''https://example.com/org/myrepo.git''),
           (JStr ''branch'', JStr ''develop''), (JStr ''status'', JStr ''READY'')]"

definition myrepo_created :: json where
  "myrepo_created =
     JObj [(JStr ''rid'', JStr ''myrepo''), (JStr ''name'', JStr ''myrepo''),
           (JStr ''url'', JStr ''https://example.com/org/myrepo.git''),
           (JStr ''branch'', JStr ''main''), (JStr ''status'', JStr ''CREATED'')]"

definition duplicate_keys :: json where
  "duplicate_keys =
     JList [JObj [(JStr ''key'', JStr ''VCS_TARGET_DIR''), (JStr ''value'', JStr ''src/'')],
            JObj [(JStr ''key'', JStr ''VCS_TARGET_DIR''), (JStr ''value'', JStr ''lib/'')]]"

definition myrepo_duplicate_keys :: json where
  "myrepo_duplicate_keys =
     JObj [(JStr ''rid'', JStr ''myrepo''), (JStr ''name'', JStr ''myrepo''), (JStr ''status'', JStr ''READY''),
           (JStr ''config'', duplicate_keys)]"

definition single_keys :: json where
  "single_keys =
     JList [JObj [(JStr ''key'', JStr ''CLIENT_VCS_CONNTYPE''), (JStr ''value'', JStr ''ssl'')],
            JObj [(JStr ''key'', JStr ''VCS_TARGET_DIR''), (JStr ''value'', JStr ''src/'')]]"

definition myrepo_single_keys :: json where
  "myrepo_single_keys =
     JObj [(JStr ''rid'', JStr ''myrepo''), (JStr ''name'', JStr ''myrepo''), (JStr ''status'', JStr ''READY''),
           (JStr ''config'', single_keys)]"

definition start :: "json \<Rightarrow> json world" where
  "start s = \<lparr>remote = s, calls = []\<rparr>"

definition unfetched :: "string \<Rightarrow> repository" where
  "unfetched name =
     \<lparr>self_name = name, self_data = JNull, self_config = JNull, self_config_shared = False\<rparr>"

definition holding :: "string \<Rightarrow> json \<Rightarrow> repository" where
  "holding name d =
     \<lparr>self_name = name, self_data = d, self_config = JNull, self_config_shared = False\<rparr>"

text \<open>The proxy \<open>Repository(connection, name, data)\<close> builds from a non-empty object
  that has a \<open>config\<close> list.\<close>

definition listed :: "string \<Rightarrow> json \<Rightarrow> json \<Rightarrow> repository" where
  "listed name d cfg =
     \<lparr>self_name = name, self_data = d, self_config = cfg, self_config_shared = True\<rparr>"

subsection \<open>Counting requests\<close>

fun is_post :: "call \<Rightarrow> bool" where
  "is_post (PostObjAsJson path obj accept) = True"
| "is_post (Execute method path ps) = (method = ''POST'')"
| "is_post (GetJson path) = False"

definition posts :: "call list \<Rightarrow> nat" where
  "posts cs = length (filter is_post cs)"

text \<open>Two calls of \<open>set_url\<close> in succession: the second runs when the first returned.\<close>

definition set_url_twice ::
  "'s connection \<Rightarrow> string \<Rightarrow> repository \<Rightarrow> 's world \<Rightarrow> (exn + response option) \<times> repository \<times> 's world" where
  "set_url_twice c u r w =
     (case set_url c u r w of
        (Inl e, r1, w1) \<Rightarrow> (Inl e, r1, w1)
      | (Inr x, r1, w1) \<Rightarrow> set_url c u r1 w1)"

text \<open>The remote system reports \<open>u\<close> as the URL of the repository to the next fetch.\<close>

definition reports_url :: "'s connection \<Rightarrow> repository \<Rightarrow> 's world \<Rightarrow> string \<Rightarrow> bool" where
  "reports_url c r w u =
     (case fst (get_json c (''repository/'' @ self_name r) (remote w)) of
        Inl e \<Rightarrow> False
      | Inr j \<Rightarrow> (case field j ''result'' of
                   None \<Rightarrow> False
                 | Some d \<Rightarrow> field d ''url'' = Some (JStr u)))"

section \<open>Facts about the helpers\<close>

lemma getitem_field: "py_getitem j k = Inr v \<longleftrightarrow> field j k = Some v"
  by (cases j) (auto split: option.splits)

lemma getitem_raises: "py_getitem j k = Inl e \<Longrightarrow> field j k = None"
  by (cases j) (auto split: option.splits)

lemma http_get_json_unfold:
  "http_get_json c n p w =
     (case get_json c (build_url n p) (remote w) of
        (res, s) \<Rightarrow>
          ((case res of Inl e \<Rightarrow> Inl (translated e) | Inr j \<Rightarrow> Inr j),
           \<lparr>remote = s, calls = calls w @ [GetJson (build_url n p)]\<rparr>))"
  by (simp add: http_get_json_def connection_get_json_def http_to_gcts_error_def
      split: prod.splits sum.splits)

lemma http_get_unfold:
  "http_get c n p ps w =
     (case execute c ''GET'' (build_url n p) ps (remote w) of
        (res, s) \<Rightarrow>
          ((case res of Inl e \<Rightarrow> Inl (translated e) | Inr j \<Rightarrow> Inr j),
           \<lparr>remote = s, calls = calls w @ [Execute ''GET'' (build_url n p) ps]\<rparr>))"
  by (simp add: http_get_def connection_execute_def http_to_gcts_error_def
      split: prod.splits sum.splits)

lemma http_post_unfold:
  "http_post c n p w =
     (case execute c ''POST'' (build_url n p) None (remote w) of
        (res, s) \<Rightarrow>
          ((case res of Inl e \<Rightarrow> Inl (translated e) | Inr j \<Rightarrow> Inr j),
           \<lparr>remote = s, calls = calls w @ [Execute ''POST'' (build_url n p) None]\<rparr>))"
  by (simp add: http_post_def connection_execute_def http_to_gcts_error_def
      split: prod.splits sum.splits)

lemma http_post_obj_unfold:
  "http_post_obj_as_json c n p obj a w =
     (case post_obj_as_json c (build_url n p) obj a (remote w) of
        (res, s) \<Rightarrow>
          ((case res of Inl e \<Rightarrow> Inl (translated e) | Inr j \<Rightarrow> Inr j),
           \<lparr>remote = s, calls = calls w @ [PostObjAsJson (build_url n p) obj a]\<rparr>))"
  by (simp add: http_post_obj_as_json_def connection_post_obj_as_json_def http_to_gcts_error_def
      split: prod.splits sum.splits)

lemma get_item_name: "get_item c item dflt f r w = (res, r', w') \<Longrightarrow> self_name r' = self_name r"
  by (auto simp: get_item_def split: if_splits prod.splits sum.splits)

lemma get_item_cached:
  "self_data r = JObj d \<Longrightarrow>
     get_item c item JNull False r w =
       (Inr (case map_of d (JStr item) of None \<Rightarrow> JNull | Some x \<Rightarrow> x), r, w)"
  by (simp add: get_item_def)

lemma dict_update_nonempty: "d \<noteq> [] \<or> other \<noteq> [] \<Longrightarrow> dict_update d other \<noteq> []"
  unfolding dict_update_def
  by (induction other arbitrary: d) auto

lemma py_update_returned:
  assumes "py_update x other = (Inr u, x')"
  shows "\<exists>d d'. x = JObj d \<and> x' = JObj d'"
  using assms by (cases x; cases other) (auto split: sum.splits prod.splits)

lemma py_update_fields:
  assumes "py_update repo0 (create_fields name u v role typ) = (Inr un, repo1)"
  shows "\<exists>d0. repo0 = JObj d0 \<and>
           repo1 = JObj (dict_update d0
             [(JStr ''rid'', JStr name), (JStr ''name'', JStr name), (JStr ''vsid'', JStr v),
              (JStr ''url'', JStr u), (JStr ''role'', JStr role), (JStr ''type'', JStr typ),
              (JStr ''connection'', JStr ''ssl'')])"
  using assms by (cases repo0) (simp_all add: create_fields_def)

lemma py_update_nonempty:
  assumes "py_update repo0 (create_fields name u v role typ) = (Inr un, repo1)"
  shows "\<exists>d1. repo1 = JObj d1 \<and> d1 \<noteq> []"
proof -
  from py_update_fields [OF assms] obtain d0 where
    r: "repo1 = JObj (dict_update d0
             [(JStr ''rid'', JStr name), (JStr ''name'', JStr name), (JStr ''vsid'', JStr v),
              (JStr ''url'', JStr u), (JStr ''role'', JStr role), (JStr ''type'', JStr typ),
              (JStr ''connection'', JStr ''ssl'')])"
    by blast
  have "dict_update d0
             [(JStr ''rid'', JStr name), (JStr ''name'', JStr name), (JStr ''vsid'', JStr v),
              (JStr ''url'', JStr u), (JStr ''role'', JStr role), (JStr ''type'', JStr typ),
              (JStr ''connection'', JStr ''ssl'')] \<noteq> []"
    by (rule dict_update_nonempty) simp
  with r show ?thesis by blast
qed

lemma create_payload_unfold:
  assumes "py_update (if truthy (self_data r) then self_data r else JObj [])
             (create_fields (self_name r) u v role typ) = (Inr un, JObj d1)"
  shows "create_payload u v cfg role typ r =
     (if (case cfg of None \<Rightarrow> False | Some cf \<Rightarrow> cf \<noteq> [])
      then (case config_list_to_dict (case map_of d1 (JStr ''config'') of None \<Rightarrow> JList [] | Some x \<Rightarrow> x) of
              Inl e \<Rightarrow> (Inl e, if truthy (self_data r) then r\<lparr>self_data := JObj d1\<rparr> else r)
            | Inr rc \<Rightarrow>
                (Inr (JObj (AList.update (JStr ''config'')
                        (config_dict_to_list (dict_update rc (case cfg of None \<Rightarrow> [] | Some cf \<Rightarrow> cf)))
                        d1)),
                 if truthy (self_data r)
                 then r\<lparr>self_data := JObj (AList.update (JStr ''config'')
                        (config_dict_to_list (dict_update rc (case cfg of None \<Rightarrow> [] | Some cf \<Rightarrow> cf)))
                        d1), self_config_shared := False\<rparr>
                 else r))
      else (Inr (JObj d1), if truthy (self_data r) then r\<lparr>self_data := JObj d1\<rparr> else r))"
  unfolding create_payload_def Let_def assms
  by (simp split: sum.splits)

lemma create_payload_raises:
  assumes "py_update (if truthy (self_data r) then self_data r else JObj [])
             (create_fields (self_name r) u v role typ) = (Inl e, x)"
  shows "fst (create_payload u v cfg role typ r) = Inl e"
  unfolding create_payload_def Let_def assms by simp

lemma create_payload_repo:
  assumes "create_payload u v cfg role typ r = (Inr repo, r1)"
  shows "truthy repo \<and> (truthy (self_data r) \<longrightarrow> self_data r1 = repo) \<and>
         (\<not> truthy (self_data r) \<longrightarrow> r1 = r)"
proof -
  let ?repo0 = "if truthy (self_data r) then self_data r else JObj []"
  obtain res repo1 where p: "py_update ?repo0 (create_fields (self_name r) u v role typ) = (res, repo1)"
    by (cases "py_update ?repo0 (create_fields (self_name r) u v role typ)")
  have "\<exists>un. res = Inr un"
  proof (cases res)
    case (Inl e)
    from create_payload_raises [OF p [unfolded Inl], of cfg] assms show ?thesis by simp
  next
    case (Inr un)
    then show ?thesis by blast
  qed
  then obtain un where u: "py_update ?repo0 (create_fields (self_name r) u v role typ) = (Inr un, repo1)"
    using p by blast
  from py_update_nonempty [OF u] obtain d1 where d1: "repo1 = JObj d1" "d1 \<noteq> []"
    by blast
  note unf = create_payload_unfold [OF u [unfolded d1(1)], of cfg]
  let ?R1 = "if truthy (self_data r) then r\<lparr>self_data := JObj d1\<rparr> else r"
  show ?thesis
  proof (cases "case cfg of None \<Rightarrow> False | Some cf \<Rightarrow> cf \<noteq> []")
    case False
    with unf have "create_payload u v cfg role typ r = (Inr (JObj d1), ?R1)" by simp
    with assms have "repo = JObj d1" "r1 = ?R1" by simp_all
    with d1 show ?thesis by simp
  next
    case True
    let ?existing = "case map_of d1 (JStr ''config'') of None \<Rightarrow> JList [] | Some x \<Rightarrow> x"
    from True unf have unf': "create_payload u v cfg role typ r =
       (case config_list_to_dict ?existing of
              Inl e \<Rightarrow> (Inl e, ?R1)
            | Inr rc \<Rightarrow>
                (Inr (JObj (AList.update (JStr ''config'')
                        (config_dict_to_list (dict_update rc (case cfg of None \<Rightarrow> [] | Some cf \<Rightarrow> cf)))
                        d1)),
                 if truthy (self_data r)
                 then r\<lparr>self_data := JObj (AList.update (JStr ''config'')
                        (config_dict_to_list (dict_update rc (case cfg of None \<Rightarrow> [] | Some cf \<Rightarrow> cf)))
                        d1), self_config_shared := False\<rparr>
                 else r))"
      by simp
    show ?thesis
    proof (cases "config_list_to_dict ?existing")
      case (Inl e)
      with unf' assms show ?thesis by simp
    next
      case (Inr rc)
      let ?d2 = "AList.update (JStr ''config'')
                        (config_dict_to_list (dict_update rc (case cfg of None \<Rightarrow> [] | Some cf \<Rightarrow> cf)))
                        d1"
      from Inr unf' have "create_payload u v cfg role typ r =
          (Inr (JObj ?d2),
           if truthy (self_data r) then r\<lparr>self_data := JObj ?d2, self_config_shared := False\<rparr> else r)"
        by simp
      with assms have "repo = JObj ?d2"
        "r1 = (if truthy (self_data r) then r\<lparr>self_data := JObj ?d2, self_config_shared := False\<rparr> else r)"
        by simp_all
      then show ?thesis by simp
    qed
  qed
qed

section \<open>The configuration adapters\<close>

lemma map_of_dict_update: "map_of (dict_update d ps) = map_of d ++ map_of (rev ps)"
  unfolding dict_update_def
proof (induction ps arbitrary: d)
  case Nil
  show ?case by simp
next
  case (Cons p ps)
  show ?case
    by (simp add: Cons.IH update_conv' map_add_upd_left fun_eq_iff map_add_def split: option.splits)
qed

lemma keys_dict_update: "fst ` set (dict_update d ps) = fst ` set d \<union> fst ` set ps"
  unfolding dict_update_def
  by (induction ps arbitrary: d) (auto simp: dom_update)

lemma distinct_dict_update:
  "distinct (map fst d) \<Longrightarrow> distinct (map fst (dict_update d ps))"
  unfolding dict_update_def
  by (induction ps arbitrary: d) (auto simp: distinct_update)

lemma config_entry_reads:
  "config_entry cfg \<Longrightarrow>
     py_getitem cfg ''key'' = Inr (entry_key cfg) \<and>
     py_get cfg ''value'' (JStr []) = Inr (entry_value cfg) \<and> hashable (entry_key cfg)"
  by (cases cfg) (auto simp: config_entry_def entry_key_def entry_value_def split: option.splits)

lemma dict_of_entries_total:
  "list_all config_entry l \<Longrightarrow> dict_of_entries l d = Inr (dict_update d (entry_pairs l))"
proof (induction l arbitrary: d)
  case Nil
  show ?case by (simp add: dict_update_def entry_pairs_def)
next
  case (Cons cfg l)
  then show ?case
    using config_entry_reads [of cfg]
    by (simp add: dict_update_def entry_pairs_def)
qed

text \<open>
  Claim C9. For a configuration list whose entries each carry a \<open>key\<close> (and a
  \<open>value\<close>), converting the list to a dict and back succeeds and gives a list with
  the same set of keys, each key once, in entries of the form \<open>{key, value}\<close> whose
  value is the value of the last entry of the original list with that key. Order and
  duplicates of the original are not kept.
\<close>

theorem config_round_trip:
  assumes "list_all config_entry l"
  shows "\<exists>r. round_trip (JList l) = Inr (JList r) \<and>
           set (map entry_key r) = set (map entry_key l) \<and>
           distinct (map entry_key r) \<and>
           (\<forall>e \<in> set r. \<exists>k v. e = JObj [(JStr ''key'', k), (JStr ''value'', v)] \<and> last_value l k = Some v)"
proof -
  define d where "d = dict_update [] (entry_pairs l)"
  define r where "r = map (\<lambda>kv. JObj [(JStr ''key'', fst kv), (JStr ''value'', snd kv)]) d"
  have rt: "round_trip (JList l) = Inr (JList r)"
    using assms by (simp add: round_trip_def config_list_to_dict_def dict_of_entries_total
        config_dict_to_list_def d_def r_def)
  have keys_r: "map entry_key r = map fst d"
    by (simp add: r_def entry_key_def comp_def)
  have "fst ` set d = fst ` set (entry_pairs l)"
    using keys_dict_update [of "[]" "entry_pairs l"] by (simp add: d_def)
  then have ks: "set (map entry_key r) = set (map entry_key l)"
    by (simp add: keys_r entry_pairs_def image_image)
  have dist: "distinct (map entry_key r)"
    using distinct_dict_update [of "[]" "entry_pairs l"] by (simp add: keys_r d_def)
  have m: "map_of d = map_of (rev (entry_pairs l))"
    using map_of_dict_update [of "[]" "entry_pairs l"] by (simp add: d_def)
  have vals: "\<forall>e \<in> set r. \<exists>k v. e = JObj [(JStr ''key'', k), (JStr ''value'', v)] \<and> last_value l k = Some v"
  proof
    fix e assume "e \<in> set r"
    then obtain k v where kv: "(k, v) \<in> set d" and e: "e = JObj [(JStr ''key'', k), (JStr ''value'', v)]"
      by (auto simp: r_def)
    from dist have "distinct (map fst d)" by (simp add: keys_r)
    with kv have "map_of d k = Some v" by simp
    then show "\<exists>k v. e = JObj [(JStr ''key'', k), (JStr ''value'', v)] \<and> last_value l k = Some v"
      using e by (auto simp: last_value_def m)
  qed
  from rt ks dist vals show ?thesis by blast
qed

theorem config_round_trip_witness:
  "list_all config_entry
     [JObj [(JStr ''key'', JStr ''a''), (JStr ''value'', JStr ''1'')],
      JObj [(JStr ''key'', JStr ''b''), (JStr ''value'', JStr ''2'')],
      JObj [(JStr ''value'', JStr ''3''), (JStr ''key'', JStr ''a'')]] \<and>
   (\<exists>r. round_trip (JList
           [JObj [(JStr ''key'', JStr ''a''), (JStr ''value'', JStr ''1'')],
            JObj [(JStr ''key'', JStr ''b''), (JStr ''value'', JStr ''2'')],
            JObj [(JStr ''value'', JStr ''3''), (JStr ''key'', JStr ''a'')]]) = Inr (JList r) \<and>
        r = [JObj [(JStr ''key'', JStr ''a''), (JStr ''value'', JStr ''3'')],
             JObj [(JStr ''key'', JStr ''b''), (JStr ''value'', JStr ''2'')]] \<and>
        distinct (map entry_key r))"
proof -
  let ?l = "[JObj [(JStr ''key'', JStr ''a''), (JStr ''value'', JStr ''1'')],
      JObj [(JStr ''key'', JStr ''b''), (JStr ''value'', JStr ''2'')],
      JObj [(JStr ''value'', JStr ''3''), (JStr ''key'', JStr ''a'')]]"
  have h: "list_all config_entry ?l" by code_simp
  have v: "round_trip (JList ?l) =
      Inr (JList [JObj [(JStr ''key'', JStr ''a''), (JStr ''value'', JStr ''3'')],
                  JObj [(JStr ''key'', JStr ''b''), (JStr ''value'', JStr ''2'')]])"
    by code_simp
  from config_round_trip [OF h] obtain r where
    "round_trip (JList ?l) = Inr (JList r)" "distinct (map entry_key r)" by blast
  with h v show ?thesis by simp
qed

section \<open>The error classification\<close>

lemma efhe_unfold:
  "exception_from_http_error resp =
     (if \<not> sublist ''application/json'' (content_type_header resp)
      then Inr (HTTPRequestError resp)
      else
        (case body_json resp of
           None \<Rightarrow> Inl ValueError
         | Some messages \<Rightarrow>
             (case py_get messages ''log'' JNull of
                Inl e \<Rightarrow> Inl e
              | Inr lg \<Rightarrow>
                  (case first_log_test lg of
                     Inl e \<Rightarrow> Inl e
                   | Inr True \<Rightarrow> Inr (GCTSRepoAlreadyExistsError messages)
                   | Inr False \<Rightarrow>
                       (case py_get messages ''exception'' JNull of
                          Inl e \<Rightarrow> Inl e
                        | Inr exception \<Rightarrow>
                            if exception = JStr ''No relation between system and repository''
                            then GCTSRepoNotExistsError_init messages
                            else Inr (GCTSRequestError messages))))))"
  unfolding exception_from_http_error_def first_log_test_def content_type_header_def ..

lemma entry_test:
  "(case py_get entry ''message'' (JStr []) of Inl e \<Rightarrow> Inl e
    | Inr m \<Rightarrow> py_endswith m ''Error action CREATE_REPOSITORY Repository already exists'') = Inr b \<Longrightarrow>
   b = (case field entry ''message'' of
          Some (JStr m) \<Rightarrow> suffix ''Error action CREATE_REPOSITORY Repository already exists'' m
        | _ \<Rightarrow> False)"
proof (cases entry)
  case (JObj f)
  show "(case py_get entry ''message'' (JStr []) of Inl e \<Rightarrow> Inl e
    | Inr m \<Rightarrow> py_endswith m ''Error action CREATE_REPOSITORY Repository already exists'') = Inr b \<Longrightarrow> ?thesis"
  proof (cases "map_of f (JStr ''message'')")
    case None
    assume "(case py_get entry ''message'' (JStr []) of Inl e \<Rightarrow> Inl e
    | Inr m \<Rightarrow> py_endswith m ''Error action CREATE_REPOSITORY Repository already exists'') = Inr b"
    with JObj None show ?thesis by simp
  next
    case (Some m)
    assume "(case py_get entry ''message'' (JStr []) of Inl e \<Rightarrow> Inl e
    | Inr m \<Rightarrow> py_endswith m ''Error action CREATE_REPOSITORY Repository already exists'') = Inr b"
    with JObj Some show ?thesis by (cases m) auto
  qed
qed simp_all

lemma first_log_test_returned:
  "first_log_test lg = Inr b \<Longrightarrow>
   b = (case lg of
          JList (entry # rest) \<Rightarrow>
            (case field entry ''message'' of
               Some (JStr m) \<Rightarrow> suffix ''Error action CREATE_REPOSITORY Repository already exists'' m
             | _ \<Rightarrow> False)
        | _ \<Rightarrow> False)"
proof (induction lg rule: py_first.induct)
  case (2 x xs)
  then show ?case using entry_test [of x b] by (simp add: first_log_test_def)
next
  case (4 c cs)
  then show ?case by (simp add: first_log_test_def)
qed (simp_all add: first_log_test_def split: if_splits)

lemma classify_returned:
  assumes "exception_from_http_error resp = Inr e"
  shows "e = classification resp"
proof (cases "sublist ''application/json'' (content_type_header resp)")
  case False
  with assms show ?thesis by (simp add: efhe_unfold classification_def)
next
  case True
  from assms True obtain messages where body: "body_json resp = Some messages"
    by (cases "body_json resp") (simp_all add: efhe_unfold)
  from assms True body obtain d where d: "messages = JObj d"
    by (cases messages) (simp_all add: efhe_unfold)
  define lg where "lg = (case map_of d (JStr ''log'') of None \<Rightarrow> JNull | Some v \<Rightarrow> v)"
  from assms True body d obtain b where b: "first_log_test lg = Inr b"
    by (cases "first_log_test lg") (simp_all add: efhe_unfold lg_def)
  have lre: "log_reports_existing messages = b"
    using first_log_test_returned [OF b]
    by (simp add: log_reports_existing_def d lg_def split: option.splits)
  have m: "messages_of resp = messages" by (simp add: messages_of_def body)
  show ?thesis
  proof (cases b)
    case True
    with assms \<open>sublist _ _\<close> body d b lre m show ?thesis
      by (simp add: efhe_unfold classification_def lg_def)
  next
    case False
    with assms \<open>sublist _ _\<close> body d b lre m show ?thesis
      by (auto simp add: efhe_unfold classification_def lg_def GCTSRepoNotExistsError_init_def
          with_exception_def split: option.splits if_splits)
  qed
qed

lemma shaped_returns:
  assumes wf: "well_formed_error resp"
  shows "\<exists>e. exception_from_http_error resp = Inr e"
proof (cases "sublist ''application/json'' (content_type_header resp)")
  case False
  then show ?thesis by (simp add: efhe_unfold)
next
  case True
  with wf have assms: "error_body_shaped resp" by (simp add: well_formed_error_def)
  from assms obtain d where body: "body_json resp = Some (JObj d)"
    by (auto simp: error_body_shaped_def split: option.splits json.splits)
  define lg where "lg = (case map_of d (JStr ''log'') of None \<Rightarrow> JNull | Some v \<Rightarrow> v)"
  have "\<exists>b. first_log_test lg = Inr b"
  proof (cases "map_of d (JStr ''log'')")
    case None
    then show ?thesis by (auto simp add: lg_def first_log_test_def)
  next
    case (Some v)
    with assms body obtain entries where v: "v = JList entries" and sh: "list_all log_entry_shaped entries"
      by (auto simp: error_body_shaped_def split: json.splits)
    show ?thesis
    proof (cases entries)
      case Nil
      with Some v show ?thesis by (auto simp add: lg_def first_log_test_def)
    next
      case (Cons entry rest)
      with sh have es: "log_entry_shaped entry" by simp
      then obtain f where f: "entry = JObj f"
        by (cases entry) (simp_all add: log_entry_shaped_def)
      have "\<exists>b. (case py_get entry ''message'' (JStr []) of Inl e \<Rightarrow> Inl e
          | Inr m \<Rightarrow> py_endswith m ''Error action CREATE_REPOSITORY Repository already exists'') = Inr b"
      proof (cases "map_of f (JStr ''message'')")
        case None
        with f show ?thesis by auto
      next
        case (Some m)
        with f es obtain s where "m = JStr s"
          by (cases m) (simp_all add: log_entry_shaped_def)
        with f Some show ?thesis by simp
      qed
      with Some v Cons show ?thesis by (auto simp add: lg_def first_log_test_def)
    qed
  qed
  then obtain b where b: "first_log_test lg = Inr b" by blast
  show ?thesis
    using True body b
    by (cases b) (auto simp add: efhe_unfold lg_def GCTSRepoNotExistsError_init_def split: option.splits)
qed

text \<open>
  Claim C1. \<open>exception_from_http_error\<close> classifies a transport error as the
  specification says, with the checks in its order: a response whose Content-Type
  does not contain \<open>application/json\<close> gives the transport error back unchanged;
  otherwise the parsed body is \<open>messages\<close>, and the result is AlreadyExists when the
  log is non-empty and the message of its first entry ends with the literal suffix,
  else NotExists with \<open>exception\<close> overwritten by \<open>Repository does not exist\<close> when
  \<open>exception\<close> is the sentence \<open>No relation between system and repository\<close>, else
  the generic request error around \<open>messages\<close>. The function returns this for every
  error that is well formed (a JSON Content-Type comes with a body of the service's
  shape), and whenever it returns at all it returns this.
\<close>

theorem classification_exact:
  "(well_formed_error resp \<longrightarrow> exception_from_http_error resp = Inr (classification resp)) \<and>
   (\<forall>e. exception_from_http_error resp = Inr e \<longrightarrow> e = classification resp)"
  using shaped_returns [of resp] classify_returned [of resp] by auto

theorem classification_exact_witness:
  "well_formed_error
     (json_response (JObj [(JStr ''exception'', JStr ''No relation between system and repository'')])) \<and>
   exception_from_http_error
     (json_response (JObj [(JStr ''exception'', JStr ''No relation between system and repository'')])) =
     Inr (GCTSRepoNotExistsError (JObj [(JStr ''exception'', JStr ''Repository does not exist'')])) \<and>
   well_formed_error (json_response already_exists_body) \<and>
   exception_from_http_error (json_response already_exists_body) =
     Inr (GCTSRepoAlreadyExistsError already_exists_body) \<and>
   well_formed_error \<lparr>content_type = Some ''text/html'', body_json = None\<rparr> \<and>
   exception_from_http_error \<lparr>content_type = Some ''text/html'', body_json = None\<rparr> =
     Inr (HTTPRequestError \<lparr>content_type = Some ''text/html'', body_json = None\<rparr>)"
proof -
  let ?r = "json_response (JObj [(JStr ''exception'', JStr ''No relation between system and repository'')])"
  let ?a = "json_response already_exists_body"
  let ?h = "\<lparr>content_type = Some ''text/html'', body_json = None\<rparr>"
  have sh: "well_formed_error ?r" "well_formed_error ?a" "well_formed_error ?h"
    by code_simp+
  have cl: "classification ?r =
     GCTSRepoNotExistsError (JObj [(JStr ''exception'', JStr ''Repository does not exist'')])"
    "classification ?a = GCTSRepoAlreadyExistsError already_exists_body"
    "classification ?h = HTTPRequestError ?h"
    by code_simp+
  from classification_exact [of ?r] sh(1)
  have r: "exception_from_http_error ?r = Inr (classification ?r)" by blast
  from classification_exact [of ?a] sh(2)
  have a: "exception_from_http_error ?a = Inr (classification ?a)" by blast
  from classification_exact [of ?h] sh(3)
  have h: "exception_from_http_error ?h = Inr (classification ?h)" by blast
  from sh r a h show ?thesis unfolding cl by blast
qed

section \<open>Mutating operations clear the snapshot\<close>

lemma get_item_cleared:
  assumes "self_data r = JNull"
  shows "fetches_once c key (get_item c key JNull False) r w"
proof -
  obtain res s where g: "get_json c (''repository/'' @ self_name r) (remote w) = (res, s)"
    by (cases "get_json c (''repository/'' @ self_name r) (remote w)")
  show ?thesis
  proof (cases res)
    case (Inl e)
    with g assms show ?thesis
      by (simp add: fetches_once_def get_item_def fetch_data_def http_get_json_def
          connection_get_json_def http_to_gcts_error_def build_url_def)
  next
    case (Inr j)
    with g assms show ?thesis
      by (cases j; cases "py_getitem j ''result''")
         (auto simp add: fetches_once_def get_item_def fetch_data_def http_get_json_def
          connection_get_json_def http_to_gcts_error_def build_url_def split: option.splits)
  qed
qed

lemma readers_are_get_item:
  "(key, reader) \<in> set (readers c) \<Longrightarrow> reader = get_item c key JNull False"
  by (auto simp: readers_def fun_eq_iff rid_def status_def vsid_def url_def branch_def head_def)

lemma readers_fetch_once:
  assumes "self_data r = JNull" "(key, reader) \<in> set (readers c)"
  shows "fetches_once c key reader r w"
  using get_item_cleared [OF assms(1)] readers_are_get_item [OF assms(2)] by simp

lemma returned_cleared:
  assumes "returned c m r w = Some (r', w')"
  shows "cleared r'"
proof (cases m)
  case Clone
  with assms show ?thesis
    by (auto simp: clone_def cleared_def wipe_data_def split: prod.splits sum.splits)
next
  case (Checkout t)
  with assms show ?thesis
    by (auto simp: checkout_def cleared_def wipe_data_def split: prod.splits sum.splits option.splits)
next
  case Pull
  with assms show ?thesis
    by (auto simp: pull_def cleared_def wipe_data_def split: prod.splits sum.splits)
next
  case Delete
  with assms show ?thesis
    by (auto simp: delete_def cleared_def wipe_data_def split: prod.splits sum.splits)
next
  case (Commit_transport a b d)
  with assms show ?thesis
    by (auto simp: commit_transport_def Let_def cleared_def wipe_data_def split: prod.splits sum.splits)
qed

lemma returned_name:
  assumes "returned c m r w = Some (r', w')"
  shows "self_name r' = self_name r"
proof (cases m)
  case Clone
  with assms show ?thesis
    by (auto simp: clone_def wipe_data_def split: prod.splits sum.splits)
next
  case (Checkout t)
  with assms show ?thesis
    by (auto simp: checkout_def branch_def wipe_data_def dest: get_item_name
        split: prod.splits sum.splits option.splits)
next
  case Pull
  with assms show ?thesis
    by (auto simp: pull_def wipe_data_def split: prod.splits sum.splits)
next
  case Delete
  with assms show ?thesis
    by (auto simp: delete_def wipe_data_def split: prod.splits sum.splits)
next
  case (Commit_transport a b d)
  with assms show ?thesis
    by (auto simp: commit_transport_def Let_def wipe_data_def split: prod.splits sum.splits)
qed

text \<open>
  Claim C3. When \<open>clone\<close>, \<open>checkout\<close>, \<open>pull\<close>, \<open>delete\<close> or \<open>commit_transport\<close>
  returns, from any state of the proxy, the snapshot and the configuration list are
  cleared, and each attribute reader (\<open>rid\<close>, \<open>status\<close>, \<open>vsid\<close>, \<open>url\<close>, \<open>branch\<close>,
  \<open>head\<close>) called next issues exactly one call, the fetch of the repository
  resource, and answers with the field of the fetched object, which it keeps as the
  new snapshot.
\<close>

theorem mutation_clears_snapshot:
  assumes "returned c m r w = Some (r', w')"
  shows "cleared r' \<and> self_name r' = self_name r \<and>
         (\<forall>(key, reader) \<in> set (readers c). fetches_once c key reader r' w')"
  using returned_cleared [OF assms] returned_name [OF assms] readers_fetch_once [of r' _ _ c w']
  by (auto simp: cleared_def)

theorem mutation_clears_snapshot_witness:
  "returned demo Pull (holding ''myrepo'' myrepo_on_develop) (start myrepo_on_develop) =
     Some (unfetched ''myrepo'',
           \<lparr>remote = myrepo_on_develop, calls = [GetJson ''repository/myrepo/pullByCommit'']\<rparr>) \<and>
   cleared (unfetched ''myrepo'') \<and>
   fetches_once demo ''status'' (status demo) (unfetched ''myrepo'')
     \<lparr>remote = myrepo_on_develop, calls = [GetJson ''repository/myrepo/pullByCommit'']\<rparr> \<and>
   status demo (unfetched ''myrepo'')
     \<lparr>remote = myrepo_on_develop, calls = [GetJson ''repository/myrepo/pullByCommit'']\<rparr> =
     (Inr (JStr ''READY''), holding ''myrepo'' myrepo_on_develop,
      \<lparr>remote = myrepo_on_develop,
        calls = [GetJson ''repository/myrepo/pullByCommit'', GetJson ''repository/myrepo'']\<rparr>)"
proof -
  let ?w = "\<lparr>remote = myrepo_on_develop, calls = [GetJson ''repository/myrepo/pullByCommit'']\<rparr>"
  have ret: "returned demo Pull (holding ''myrepo'' myrepo_on_develop) (start myrepo_on_develop) =
     Some (unfetched ''myrepo'', ?w)"
    by code_simp
  have rd: "status demo (unfetched ''myrepo'') ?w =
     (Inr (JStr ''READY''), holding ''myrepo'' myrepo_on_develop,
      \<lparr>remote = myrepo_on_develop,
        calls = [GetJson ''repository/myrepo/pullByCommit'', GetJson ''repository/myrepo'']\<rparr>)"
    by code_simp
  have mem: "(''status'', status demo) \<in> set (readers demo)"
    by (simp add: readers_def)
  from mutation_clears_snapshot [OF ret] mem
  have "cleared (unfetched ''myrepo'')"
    and "fetches_once demo ''status'' (status demo) (unfetched ''myrepo'') ?w"
    by blast+
  with ret rd show ?thesis by simp
qed



section \<open>Checkout\<close>

text \<open>
  Claim C8. On a proxy whose current branch, cached or fetched on demand by the
  \<open>branch\<close> reader, is \<open>b\<close>, \<open>checkout(target)\<close> issues after that read exactly one
  call: GET of \<open>repository/{name}/branches/{b}/switch\<close>, the branch before the switch
  in the path and the target as the query parameter \<open>branch\<close>. When the call
  answers with a JSON body that has a \<open>result\<close>, the snapshot is cleared and that
  \<open>result\<close> is returned.
\<close>

theorem checkout_switches_from_current_branch:
  assumes "branch c r w = (Inr (JStr b), r1, w1)"
  shows "\<exists>res r2 w2.
           checkout c target r w = (res, r2, w2) \<and>
           calls w2 = calls w1 @
             [Execute ''GET'' (''repository/'' @ self_name r @ ''/branches/'' @ b @ ''/switch'')
                (Some [(''branch'', target)])] \<and>
           (\<forall>resp s j v.
              execute c ''GET'' (''repository/'' @ self_name r @ ''/branches/'' @ b @ ''/switch'')
                (Some [(''branch'', target)]) (remote w1) = (Inr resp, s) \<and>
              body_json resp = Some j \<and> field j ''result'' = Some v \<longrightarrow>
              res = Inr v \<and> r2 = wipe_data r1 \<and> cleared r2 \<and> remote w2 = s)"
proof -
  have n: "self_name r1 = self_name r"
    using assms by (simp add: branch_def get_item_name)
  obtain res s where e: "execute c ''GET''
      (''repository/'' @ self_name r @ ''/branches/'' @ b @ ''/switch'')
      (Some [(''branch'', target)]) (remote w1) = (res, s)"
    by (cases "execute c ''GET''
      (''repository/'' @ self_name r @ ''/branches/'' @ b @ ''/switch'')
      (Some [(''branch'', target)]) (remote w1)")
  show ?thesis
  proof (cases res)
    case (Inl x)
    with assms n e show ?thesis
      by (simp add: checkout_def http_get_unfold build_url_def)
  next
    case (Inr resp)
    with assms n e show ?thesis
      by (auto simp add: checkout_def http_get_unfold build_url_def getitem_field [symmetric]
          cleared_def wipe_data_def split: option.splits)
  qed
qed

theorem checkout_switches_from_current_branch_witness:
  "branch demo (unfetched ''myrepo'') (start myrepo_on_develop) =
     (Inr (JStr ''develop''), holding ''myrepo'' myrepo_on_develop,
      \<lparr>remote = myrepo_on_develop, calls = [GetJson ''repository/myrepo'']\<rparr>) \<and>
   (\<exists>res r2 w2.
      checkout demo ''main'' (unfetched ''myrepo'') (start myrepo_on_develop) = (res, r2, w2) \<and>
      calls w2 =
        [GetJson ''repository/myrepo'',
         Execute ''GET'' ''repository/myrepo/branches/develop/switch'' (Some [(''branch'', ''main'')])])"
proof -
  have b: "branch demo (unfetched ''myrepo'') (start myrepo_on_develop) =
     (Inr (JStr ''develop''), holding ''myrepo'' myrepo_on_develop,
      \<lparr>remote = myrepo_on_develop, calls = [GetJson ''repository/myrepo'']\<rparr>)"
    by code_simp
  from checkout_switches_from_current_branch [OF b, of "''main''"]
  obtain res r2 w2 where
    "checkout demo ''main'' (unfetched ''myrepo'') (start myrepo_on_develop) = (res, r2, w2)"
    "calls w2 = calls \<lparr>remote = myrepo_on_develop, calls = [GetJson ''repository/myrepo'']\<rparr> @
       [Execute ''GET'' (''repository/'' @ self_name (unfetched ''myrepo'') @ ''/branches/'' @
          ''develop'' @ ''/switch'') (Some [(''branch'', ''main'')])]"
    by blast
  then have "\<exists>res r2 w2.
      checkout demo ''main'' (unfetched ''myrepo'') (start myrepo_on_develop) = (res, r2, w2) \<and>
      calls w2 =
        [GetJson ''repository/myrepo'',
         Execute ''GET'' ''repository/myrepo/branches/develop/switch'' (Some [(''branch'', ''main'')])]"
    by (simp add: unfetched_def)
  with b show ?thesis by blast
qed

section \<open>Setting the URL\<close>

lemma set_url_outcome:
  assumes g: "get_json c (''repository/'' @ self_name r) (remote w) = (res0, s)"
  shows "set_url c u r w =
     (case res0 of
        Inl e \<Rightarrow> (Inl (translated e), r,
                  \<lparr>remote = s, calls = calls w @ [GetJson (''repository/'' @ self_name r)]\<rparr>)
      | Inr j \<Rightarrow>
          (case py_getitem j ''result'' of
             Inl e \<Rightarrow> (Inl e, r, \<lparr>remote = s, calls = calls w @ [GetJson (''repository/'' @ self_name r)]\<rparr>)
           | Inr data \<Rightarrow>
               (case py_getitem data ''url'' of
                  Inl e \<Rightarrow> (Inl e, r, \<lparr>remote = s, calls = calls w @ [GetJson (''repository/'' @ self_name r)]\<rparr>)
                | Inr current \<Rightarrow>
                    if current = JStr u
                    then (Inr None, r, \<lparr>remote = s, calls = calls w @ [GetJson (''repository/'' @ self_name r)]\<rparr>)
                    else (case py_setitem data ''url'' (JStr u) of
                            Inl e \<Rightarrow> (Inl e, r, \<lparr>remote = s, calls = calls w @ [GetJson (''repository/'' @ self_name r)]\<rparr>)
                          | Inr data' \<Rightarrow>
                              (case post_obj_as_json c (''repository/'' @ self_name r) data' None s of
                                 (res1, s') \<Rightarrow>
                                   ((case res1 of Inl e \<Rightarrow> Inl (translated e) | Inr resp \<Rightarrow> Inr (Some resp)),
                                    r,
                                    \<lparr>remote = s',
                                      calls = calls w @ [GetJson (''repository/'' @ self_name r),
                                                         PostObjAsJson (''repository/'' @ self_name r) data' None]\<rparr>))))))"
  using g
  by (simp add: set_url_def fetch_data_def http_get_json_unfold http_post_obj_unfold build_url_def
      split: sum.splits prod.splits)

lemma set_url_calls:
  assumes "set_url c u r w = (res, r', w')"
  shows "r' = r \<and>
         (calls w' = calls w @ [GetJson (''repository/'' @ self_name r)] \<or>
          (\<exists>d. calls w' = calls w @ [GetJson (''repository/'' @ self_name r),
                                    PostObjAsJson (''repository/'' @ self_name r) d None]))"
proof -
  obtain res0 s where g: "get_json c (''repository/'' @ self_name r) (remote w) = (res0, s)"
    by (cases "get_json c (''repository/'' @ self_name r) (remote w)")
  show ?thesis
    using assms unfolding set_url_outcome [OF g]
    by (auto split: sum.splits if_splits prod.splits)
qed

lemma set_url_noop:
  assumes "reports_url c r w u"
  shows "set_url c u r w =
           (Inr None, r,
            \<lparr>remote = snd (get_json c (''repository/'' @ self_name r) (remote w)),
              calls = calls w @ [GetJson (''repository/'' @ self_name r)]\<rparr>)"
proof -
  obtain res0 s where g: "get_json c (''repository/'' @ self_name r) (remote w) = (res0, s)"
    by (cases "get_json c (''repository/'' @ self_name r) (remote w)")
  from assms g obtain j d where "res0 = Inr j" "field j ''result'' = Some d"
    "field d ''url'' = Some (JStr u)"
    by (auto simp: reports_url_def split: sum.splits option.splits)
  then have "py_getitem j ''result'' = Inr d" "py_getitem d ''url'' = Inr (JStr u)"
    by (simp_all add: getitem_field)
  with g \<open>res0 = Inr j\<close> show ?thesis
    unfolding set_url_outcome [OF g] by simp
qed

lemma posts_append: "posts (xs @ ys) = posts xs + posts ys"
  by (simp add: posts_def)

text \<open>
  Claim C7. \<open>set_url\<close> is idempotent. Every call first issues the fetch of the
  repository resource. When the fetched \<open>url\<close> already equals the given one, the call
  issues nothing else, returns \<open>None\<close> and leaves the proxy as it was. Hence two calls
  in succession with the same URL, where the remote system reports that URL to the
  fetch that follows a returned call, issue at most one POST.
\<close>

theorem set_url_idempotent:
  "(\<exists>rest. calls (snd (snd (set_url c u r w))) =
             calls w @ GetJson (''repository/'' @ self_name r) # rest) \<and>
   (reports_url c r w u \<longrightarrow>
      set_url c u r w =
        (Inr None, r,
         \<lparr>remote = snd (get_json c (''repository/'' @ self_name r) (remote w)),
           calls = calls w @ [GetJson (''repository/'' @ self_name r)]\<rparr>)) \<and>
   ((\<forall>x r1 w1. set_url c u r w = (Inr x, r1, w1) \<longrightarrow> reports_url c r1 w1 u) \<longrightarrow>
      posts (calls (snd (snd (set_url_twice c u r w)))) \<le> posts (calls w) + 1)"
proof (intro conjI impI)
  obtain res r1 w1 where first: "set_url c u r w = (res, r1, w1)"
    by (cases "set_url c u r w") auto
  note fc = set_url_calls [OF first]
  from fc show "\<exists>rest. calls (snd (snd (set_url c u r w))) =
             calls w @ GetJson (''repository/'' @ self_name r) # rest"
    by (auto simp: first)
  have p1: "posts (calls w1) \<le> posts (calls w) + 1"
    using fc by (auto simp: posts_append posts_def)
  assume adopt: "\<forall>x r1 w1. set_url c u r w = (Inr x, r1, w1) \<longrightarrow> reports_url c r1 w1 u"
  show "posts (calls (snd (snd (set_url_twice c u r w)))) \<le> posts (calls w) + 1"
  proof (cases res)
    case (Inl e)
    with first p1 show ?thesis by (simp add: set_url_twice_def)
  next
    case (Inr x)
    with first adopt have "reports_url c r1 w1 u" by blast
    from set_url_noop [OF this] Inr first p1 show ?thesis
      by (simp add: set_url_twice_def posts_append posts_def)
  qed
next
  assume "reports_url c r w u"
  then show "set_url c u r w =
        (Inr None, r,
         \<lparr>remote = snd (get_json c (''repository/'' @ self_name r) (remote w)),
           calls = calls w @ [GetJson (''repository/'' @ self_name r)]\<rparr>)"
    by (rule set_url_noop)
qed

theorem set_url_idempotent_witness:
  "fst (set_url demo ''https://example.com/org/other.git'' (unfetched ''myrepo'')
          (start myrepo_on_develop)) =
     Inr (Some (json_response (JObj []))) \<and>
   reports_url demo (unfetched ''myrepo'')
     (snd (snd (set_url demo ''https://example.com/org/other.git'' (unfetched ''myrepo'')
                  (start myrepo_on_develop))))
     ''https://example.com/org/other.git'' \<and>
   fst (set_url_twice demo ''https://example.com/org/other.git'' (unfetched ''myrepo'')
          (start myrepo_on_develop)) = Inr None \<and>
   posts (calls (snd (snd (set_url_twice demo ''https://example.com/org/other.git''
                             (unfetched ''myrepo'') (start myrepo_on_develop))))) = 1 \<and>
   posts (calls (snd (snd (set_url_twice demo ''https://example.com/org/other.git''
                             (unfetched ''myrepo'') (start myrepo_on_develop)))))
     \<le> posts (calls (start myrepo_on_develop)) + 1"
proof -
  let ?u = "''https://example.com/org/other.git''"
  let ?first = "set_url demo ?u (unfetched ''myrepo'') (start myrepo_on_develop)"
  have r1: "fst ?first = Inr (Some (json_response (JObj [])))" by code_simp
  have r2: "fst (snd ?first) = unfetched ''myrepo''" by code_simp
  have rep: "reports_url demo (unfetched ''myrepo'') (snd (snd ?first)) ?u" by code_simp
  have adopt: "\<forall>x r1 w1. ?first = (Inr x, r1, w1) \<longrightarrow> reports_url demo r1 w1 ?u"
  proof (intro allI impI)
    fix x r1 w1
    assume "?first = (Inr x, r1, w1)"
    with r2 rep show "reports_url demo r1 w1 ?u" by simp
  qed
  from set_url_idempotent [of demo ?u "unfetched ''myrepo''" "start myrepo_on_develop"] adopt
  have le: "posts (calls (snd (snd (set_url_twice demo ?u (unfetched ''myrepo'')
                (start myrepo_on_develop))))) \<le> posts (calls (start myrepo_on_develop)) + 1"
    by blast
  have t1: "fst (set_url_twice demo ?u (unfetched ''myrepo'') (start myrepo_on_develop)) = Inr None"
    by code_simp
  have t2: "posts (calls (snd (snd (set_url_twice demo ?u (unfetched ''myrepo'')
                (start myrepo_on_develop))))) = 1"
    by code_simp
  from r1 rep t1 t2 le show ?thesis by blast
qed

section \<open>Create and clone\<close>

lemma create_payload_name:
  "create_payload u v cfg role typ r = (res, r') \<Longrightarrow> self_name r' = self_name r"
  by (auto simp: create_payload_def Let_def split: sum.splits prod.splits if_splits)

lemma create_store_name: "create_store result r = (res, r') \<Longrightarrow> self_name r' = self_name r"
  by (auto simp: create_store_def split: sum.splits prod.splits if_splits)

lemma create_name:
  assumes "create c u v cfg role typ r w = (res, r', w')"
  shows "self_name r' = self_name r"
proof -
  obtain pres r1 where p: "create_payload u v cfg role typ r = (pres, r1)"
    by (cases "create_payload u v cfg role typ r")
  note n1 = create_payload_name [OF p]
  show ?thesis
  proof (cases pres)
    case (Inl e)
    with assms p n1 show ?thesis by (simp add: create_def)
  next
    case (Inr repo)
    with assms p n1 show ?thesis
      by (auto simp: create_def connection_post_obj_as_json_def
          split: prod.splits sum.splits option.splits dest: create_store_name)
  qed
qed

lemma Repository_unfetched: "Repository name JNull = Inr (unfetched name)"
  by (simp add: Repository_def unfetched_def)

lemma wipe_unfetched: "wipe_data r = unfetched (self_name r)"
  by (simp add: wipe_data_def unfetched_def)

lemma status_unfetched:
  assumes g: "get_json c (''repository/'' @ name) (remote w) = (res0, s)"
  shows "status c (unfetched name) w =
     (case res0 of
        Inl e \<Rightarrow> (Inl (translated e), unfetched name,
                  \<lparr>remote = s, calls = calls w @ [GetJson (''repository/'' @ name)]\<rparr>)
      | Inr j \<Rightarrow>
          (case py_getitem j ''result'' of
             Inl e \<Rightarrow> (Inl e, unfetched name,
                       \<lparr>remote = s, calls = calls w @ [GetJson (''repository/'' @ name)]\<rparr>)
           | Inr result \<Rightarrow>
               (py_get result ''status'' JNull, holding name result,
                \<lparr>remote = s, calls = calls w @ [GetJson (''repository/'' @ name)]\<rparr>)))"
  using g
  by (simp add: status_def get_item_def fetch_data_def http_get_json_unfold build_url_def
      unfetched_def holding_def split: sum.splits)

lemma clone_outcome:
  assumes e: "execute c ''POST'' (''repository/'' @ self_name r @ ''/clone'') None (remote w) = (res0, s)"
  shows "clone c r w =
     (case res0 of
        Inl e \<Rightarrow> (Inl (translated e), r,
                  \<lparr>remote = s, calls = calls w @ [Execute ''POST'' (''repository/'' @ self_name r @ ''/clone'') None]\<rparr>)
      | Inr resp \<Rightarrow> (Inr resp, wipe_data r,
                  \<lparr>remote = s, calls = calls w @ [Execute ''POST'' (''repository/'' @ self_name r @ ''/clone'') None]\<rparr>))"
  using e by (simp add: clone_def http_post_unfold build_url_def split: sum.splits)

text \<open>
  What \<open>simple_clone\<close> does after \<open>create\<close>, called on its new proxy, raised the
  AlreadyExists error, when the messages of the error have an \<open>exception\<close> entry.
  With \<open>error_exists=True\<close> the same error leaves \<open>simple_clone\<close> and nothing more is
  called. With \<open>error_exists=False\<close> it does not: the proxy is wiped, so the
  \<open>is_cloned\<close> check issues a fetch of the repository resource, and when the fetch
  brings the object \<open>d\<close>, \<open>clone()\<close> is called (POST of the \<open>clone\<close> sub-resource) if
  and only if the \<open>status\<close> of \<open>d\<close> is \<open>CREATED\<close>; otherwise the proxy holding \<open>d\<close> is
  returned.
\<close>

lemma simple_clone_after_existing:
  assumes cr: "create c u v (Some (clone_config start_dir vcs_token)) role typ (unfetched name) w =
             (Inl (GCTSRepoAlreadyExistsError m), r1, w1)"
    and ex: "field m ''exception'' = Some x"
  shows "simple_clone c u name v start_dir vcs_token True role typ w =
           (Inl (GCTSRepoAlreadyExistsError m), w1) \<and>
         (\<exists>res w3 rest.
            simple_clone c u name v start_dir vcs_token False role typ w = (res, w3) \<and>
            calls w3 = calls w1 @ GetJson (''repository/'' @ name) # rest \<and>
            (\<forall>j s d.
               get_json c (''repository/'' @ name) (remote w1) = (Inr j, s) \<and>
               field j ''result'' = Some (JObj d) \<longrightarrow>
               (if map_of d (JStr ''status'') = Some (JStr ''CREATED'')
                then rest = [Execute ''POST'' (''repository/'' @ name @ ''/clone'') None] \<and>
                     remote w3 = snd (execute c ''POST'' (''repository/'' @ name @ ''/clone'') None s) \<and>
                     res = (case fst (execute c ''POST'' (''repository/'' @ name @ ''/clone'') None s) of
                              Inl e \<Rightarrow> Inl (translated e)
                            | Inr resp \<Rightarrow> Inr (unfetched name))
                else rest = [] \<and> remote w3 = s \<and> res = Inr (holding name (JObj d)))))"
proof
  show "simple_clone c u name v start_dir vcs_token True role typ w =
           (Inl (GCTSRepoAlreadyExistsError m), w1)"
    using cr by (simp add: simple_clone_def Repository_unfetched)
next
  have ex': "py_getitem m ''exception'' = Inr x"
    using ex by (simp add: getitem_field)
  have n: "self_name r1 = name"
    using create_name [OF cr] by (simp add: unfetched_def)
  have w: "wipe_data r1 = unfetched name"
    using n by (simp add: wipe_unfetched)
  obtain res0 s where g: "get_json c (''repository/'' @ name) (remote w1) = (res0, s)"
    by (cases "get_json c (''repository/'' @ name) (remote w1)")
  let ?w2 = "\<lparr>remote = s, calls = calls w1 @ [GetJson (''repository/'' @ name)]\<rparr>"
  have sc: "simple_clone c u name v start_dir vcs_token False role typ w =
        (case is_cloned c (unfetched name) w1 of
           (Inl e, r2, w2) \<Rightarrow> (Inl e, w2)
         | (Inr cloned, r2, w2) \<Rightarrow>
             if \<not> cloned
             then (case clone c r2 w2 of
                     (Inl e, r3, w3) \<Rightarrow> (Inl e, w3)
                   | (Inr resp, r3, w3) \<Rightarrow> (Inr r3, w3))
             else (Inr r2, w2))"
    using cr w ex' by (simp add: simple_clone_def Repository_unfetched GCTSRequestError_repr_def)
  show "\<exists>res w3 rest.
            simple_clone c u name v start_dir vcs_token False role typ w = (res, w3) \<and>
            calls w3 = calls w1 @ GetJson (''repository/'' @ name) # rest \<and>
            (\<forall>j s d.
               get_json c (''repository/'' @ name) (remote w1) = (Inr j, s) \<and>
               field j ''result'' = Some (JObj d) \<longrightarrow>
               (if map_of d (JStr ''status'') = Some (JStr ''CREATED'')
                then rest = [Execute ''POST'' (''repository/'' @ name @ ''/clone'') None] \<and>
                     remote w3 = snd (execute c ''POST'' (''repository/'' @ name @ ''/clone'') None s) \<and>
                     res = (case fst (execute c ''POST'' (''repository/'' @ name @ ''/clone'') None s) of
                              Inl e \<Rightarrow> Inl (translated e)
                            | Inr resp \<Rightarrow> Inr (unfetched name))
                else rest = [] \<and> remote w3 = s \<and> res = Inr (holding name (JObj d))))"
  proof (cases res0)
    case (Inl e)
    with g show ?thesis
      unfolding sc by (simp add: is_cloned_def status_unfetched [OF g])
  next
    case (Inr j)
    show ?thesis
    proof (cases "py_getitem j ''result''")
      case (Inl e)
      then have "field j ''result'' = None" by (rule getitem_raises)
      with g Inr Inl show ?thesis
        unfolding sc by (simp add: is_cloned_def status_unfetched [OF g])
    next
      case result: (Inr result)
      then have f: "field j ''result'' = Some result" by (simp add: getitem_field)
      have st: "status c (unfetched name) w1 = (py_get result ''status'' JNull, holding name result, ?w2)"
        using Inr result by (simp add: status_unfetched [OF g])
      show ?thesis
      proof (cases result)
        case (JObj d)
        obtain res1 s' where ex: "execute c ''POST'' (''repository/'' @ name @ ''/clone'') None s = (res1, s')"
          by (cases "execute c ''POST'' (''repository/'' @ name @ ''/clone'') None s")
        have ex': "execute c ''POST'' (''repository/'' @ self_name (holding name result) @ ''/clone'')
            None (remote ?w2) = (res1, s')"
          using ex by (simp add: holding_def)
        have wh: "wipe_data (holding name result) = unfetched name"
          by (simp add: wipe_unfetched holding_def)
        have nh: "self_name (holding name result) = name"
          by (simp add: holding_def)
        show ?thesis
        proof (cases "map_of d (JStr ''status'') = Some (JStr ''CREATED'')")
          case True
          with JObj st have ic: "is_cloned c (unfetched name) w1 = (Inr False, holding name result, ?w2)"
            by (simp add: is_cloned_def)
          have cl: "clone c (holding name result) ?w2 =
              (case res1 of
                 Inl e \<Rightarrow> (Inl (translated e), holding name result,
                   \<lparr>remote = s', calls = calls ?w2 @ [Execute ''POST'' (''repository/'' @ name @ ''/clone'') None]\<rparr>)
               | Inr resp \<Rightarrow> (Inr resp, unfetched name,
                   \<lparr>remote = s', calls = calls ?w2 @ [Execute ''POST'' (''repository/'' @ name @ ''/clone'') None]\<rparr>))"
            unfolding clone_outcome [OF ex'] nh wh ..
          have "simple_clone c u name v start_dir vcs_token False role typ w =
              (case clone c (holding name result) ?w2 of
                 (Inl e, r3, w3) \<Rightarrow> (Inl e, w3)
               | (Inr resp, r3, w3) \<Rightarrow> (Inr r3, w3))"
            unfolding sc ic by simp
          also have "\<dots> =
              ((case res1 of Inl e \<Rightarrow> Inl (translated e) | Inr resp \<Rightarrow> Inr (unfetched name)),
               \<lparr>remote = s', calls = calls ?w2 @ [Execute ''POST'' (''repository/'' @ name @ ''/clone'') None]\<rparr>)"
            unfolding cl by (cases res1) simp_all
          finally have fin: "simple_clone c u name v start_dir vcs_token False role typ w =
              ((case res1 of Inl e \<Rightarrow> Inl (translated e) | Inr resp \<Rightarrow> Inr (unfetched name)),
               \<lparr>remote = s', calls = calls ?w2 @ [Execute ''POST'' (''repository/'' @ name @ ''/clone'') None]\<rparr>)" .
          show ?thesis
            unfolding fin using g Inr f JObj ex True by simp
        next
          case False
          with JObj st have ic: "is_cloned c (unfetched name) w1 = (Inr True, holding name result, ?w2)"
            by (auto simp add: is_cloned_def split: option.splits)
          with g Inr f JObj False show ?thesis
            unfolding sc ic by simp
        qed
      next
        case JNull
        with g Inr result f show ?thesis
          unfolding sc by (simp add: is_cloned_def status_unfetched [OF g])
      next
        case (JBool x)
        with g Inr result f show ?thesis
          unfolding sc by (simp add: is_cloned_def status_unfetched [OF g])
      next
        case (JStr x)
        with g Inr result f show ?thesis
          unfolding sc by (simp add: is_cloned_def status_unfetched [OF g])
      next
        case (JList x)
        with g Inr result f show ?thesis
          unfolding sc by (simp add: is_cloned_def status_unfetched [OF g])
      qed
    qed
  qed
qed

text \<open>Without such an entry \<open>str(ex)\<close> raises, and its exception leaves
  \<open>simple_clone\<close> with the proxy not wiped and nothing fetched or cloned.\<close>

lemma simple_clone_str_raises:
  assumes cr: "create c u v (Some (clone_config start_dir vcs_token)) role typ (unfetched name) w =
             (Inl (GCTSRepoAlreadyExistsError m), r1, w1)"
    and ex: "py_getitem m ''exception'' = Inl e"
  shows "simple_clone c u name v start_dir vcs_token False role typ w = (Inl e, w1)"
  using cr ex by (simp add: simple_clone_def Repository_unfetched GCTSRequestError_repr_def)

text \<open>
  Claim C5. With \<open>error_exists=False\<close>, \<open>simple_clone\<close> is to swallow the AlreadyExists
  error of \<open>create\<close>, wipe the proxy, fetch and clone when the status is \<open>CREATED\<close>.
  The service answers the POST of \<open>create\<close> with the error body
  \<open>{"log": [{"message": "... Error action CREATE_REPOSITORY Repository already exists"}]}\<close>,
  which has no \<open>exception\<close> entry: \<open>create\<close> raises the AlreadyExists error, and
  \<open>simple_clone\<close> with \<open>error_exists=False\<close> raises \<open>KeyError\<close> after that one POST, with
  no fetch and no clone. With the entry \<open>exception\<close> added to the same body it returns
  the wiped proxy after the fetch and the clone.
\<close>

theorem simple_clone_raises_key_error:
  "fst (create (reporting already_exists_log_only) ''https://example.com/org/myrepo.git'' ''6IT''
          (Some (clone_config (Some ''src/'') None)) ''SOURCE'' ''GITHUB''
          (unfetched ''myrepo'') (start myrepo_created)) =
     Inl (GCTSRepoAlreadyExistsError already_exists_log_only) \<and>
   fst (simple_clone (reporting already_exists_log_only) ''https://example.com/org/myrepo.git''
          ''myrepo'' ''6IT'' (Some ''src/'') None False ''SOURCE'' ''GITHUB'' (start myrepo_created)) =
     Inl KeyError \<and>
   map is_post (calls (snd (simple_clone (reporting already_exists_log_only)
          ''https://example.com/org/myrepo.git'' ''myrepo'' ''6IT'' (Some ''src/'') None False
          ''SOURCE'' ''GITHUB'' (start myrepo_created)))) = [True] \<and>
   remote (snd (simple_clone (reporting already_exists_log_only)
          ''https://example.com/org/myrepo.git'' ''myrepo'' ''6IT'' (Some ''src/'') None False
          ''SOURCE'' ''GITHUB'' (start myrepo_created))) = myrepo_created \<and>
   fst (simple_clone (reporting already_exists_body) ''https://example.com/org/myrepo.git''
          ''myrepo'' ''6IT'' (Some ''src/'') None False ''SOURCE'' ''GITHUB'' (start myrepo_created)) =
     Inr (unfetched ''myrepo'') \<and>
   drop 1 (calls (snd (simple_clone (reporting already_exists_body)
          ''https://example.com/org/myrepo.git'' ''myrepo'' ''6IT'' (Some ''src/'') None False
          ''SOURCE'' ''GITHUB'' (start myrepo_created)))) =
     [GetJson ''repository/myrepo'', Execute ''POST'' ''repository/myrepo/clone'' None]"
proof -
  let ?u = "''https://example.com/org/myrepo.git''"
  have c: "fst (create (reporting already_exists_log_only) ?u ''6IT''
          (Some (clone_config (Some ''src/'') None)) ''SOURCE'' ''GITHUB''
          (unfetched ''myrepo'') (start myrepo_created)) =
     Inl (GCTSRepoAlreadyExistsError already_exists_log_only)"
    by code_simp
  have k: "fst (simple_clone (reporting already_exists_log_only) ?u
          ''myrepo'' ''6IT'' (Some ''src/'') None False ''SOURCE'' ''GITHUB'' (start myrepo_created)) =
     Inl KeyError"
    by code_simp
  have p: "map is_post (calls (snd (simple_clone (reporting already_exists_log_only)
          ?u ''myrepo'' ''6IT'' (Some ''src/'') None False
          ''SOURCE'' ''GITHUB'' (start myrepo_created)))) = [True]"
    by code_simp
  have r: "remote (snd (simple_clone (reporting already_exists_log_only)
          ?u ''myrepo'' ''6IT'' (Some ''src/'') None False
          ''SOURCE'' ''GITHUB'' (start myrepo_created))) = myrepo_created"
    by code_simp
  have f1: "fst (simple_clone (reporting already_exists_body) ?u
          ''myrepo'' ''6IT'' (Some ''src/'') None False ''SOURCE'' ''GITHUB'' (start myrepo_created)) =
     Inr (unfetched ''myrepo'')"
    by code_simp
  have f2: "drop 1 (calls (snd (simple_clone (reporting already_exists_body)
          ?u ''myrepo'' ''6IT'' (Some ''src/'') None False
          ''SOURCE'' ''GITHUB'' (start myrepo_created)))) =
     [GetJson ''repository/myrepo'', Execute ''POST'' ''repository/myrepo/clone'' None]"
    by code_simp
  from c k p r f1 f2 show ?thesis by blast
qed

section \<open>Setting and reading a configuration value\<close>

lemma find_entry_entries:
  "list_all config_entry es \<Longrightarrow>
     (find_entry es k = Inr None \<and> (\<forall>e \<in> set es. entry_key e \<noteq> JStr k)) \<or>
     (\<exists>i. find_entry es k = Inr (Some i) \<and> i < length es \<and> entry_key (es ! i) = JStr k)"
proof (induction es)
  case Nil
  show ?case by simp
next
  case (Cons e es)
  then have e: "py_getitem e ''key'' = Inr (entry_key e)" and es: "list_all config_entry es"
    using config_entry_reads [of e] by simp_all
  show ?case
  proof (cases "entry_key e = JStr k")
    case True
    with e show ?thesis by auto
  next
    case False
    from Cons.IH [OF es] False e show ?thesis by auto
  qed
qed

lemma filter_one_rest:
  assumes "length (filter P es) \<le> 1" "i < length es" "P (es ! i)"
  shows "\<forall>x \<in> set (drop (Suc i) es). \<not> P x"
proof -
  have "es = take i es @ es ! i # drop (Suc i) es"
    using assms(2) by (rule id_take_nth_drop)
  then have "filter P es = filter P (take i es) @ es ! i # filter P (drop (Suc i) es)"
    using assms(3) by (metis filter.simps(2) filter_append)
  with assms(1) have "filter P (drop (Suc i) es) = []" by simp
  then show ?thesis by (simp add: filter_empty_conv)
qed

lemma map_of_rev_no_key:
  "\<forall>e \<in> set es. entry_key e \<noteq> k \<Longrightarrow> map_of (rev (entry_pairs es)) k = None"
  by (auto simp: entry_pairs_def map_of_eq_None_iff image_iff)

lemma set_configuration_key_entries:
  assumes wf: "list_all config_entry es"
      and one: "length (filter (\<lambda>e. entry_key e = JStr k) es) \<le> 1"
      and ok: "set_configuration_key (JList es) k v = Inr cfg"
  shows "\<exists>es'. cfg = JList es' \<and> list_all config_entry es' \<and> last_value es' (JStr k) = Some v"
proof -
  from find_entry_entries [OF wf, of k] show ?thesis
  proof
    assume nf: "find_entry es k = Inr None \<and> (\<forall>e \<in> set es. entry_key e \<noteq> JStr k)"
    let ?new = "JObj [(JStr ''key'', JStr k), (JStr ''value'', v)]"
    from nf ok have cfg: "cfg = JList (es @ [?new])"
      by (simp add: set_configuration_key_def)
    have "config_entry ?new" by (simp add: config_entry_def)
    with wf have "list_all config_entry (es @ [?new])" by simp
    moreover have "last_value (es @ [?new]) (JStr k) = Some v"
      by (simp add: last_value_def entry_pairs_def entry_key_def entry_value_def)
    ultimately show ?thesis using cfg by blast
  next
    assume "\<exists>i. find_entry es k = Inr (Some i) \<and> i < length es \<and> entry_key (es ! i) = JStr k"
    then obtain i where f: "find_entry es k = Inr (Some i)" and i: "i < length es"
      and key: "entry_key (es ! i) = JStr k" by blast
    from wf i have ce: "config_entry (es ! i)" by (simp add: list_all_length)
    then obtain d where d: "es ! i = JObj d"
      by (cases "es ! i") (simp_all add: config_entry_def)
    with ce have ne: "d \<noteq> []" by (auto simp: config_entry_def)
    let ?item = "JObj (AList.update (JStr ''value'') v d)"
    from f d ne ok have cfg: "cfg = JList (es[i := ?item])"
      by (simp add: set_configuration_key_def)
    have ik: "entry_key ?item = JStr k" and iv: "entry_value ?item = v"
      using key d by (simp_all add: entry_key_def entry_value_def update_conv')
    have ic: "config_entry ?item"
      using ce d by (simp add: config_entry_def update_conv')
    have wf': "list_all config_entry (es[i := ?item])"
      using wf ic by (auto simp: list_all_iff dest!: subsetD [OF set_update_subset_insert])
    have rest: "\<forall>e \<in> set (drop (Suc i) es). entry_key e \<noteq> JStr k"
      using filter_one_rest [OF one i key] .
    have split: "es[i := ?item] = take i es @ ?item # drop (Suc i) es"
      using i by (rule upd_conv_take_nth_drop)
    have "last_value (es[i := ?item]) (JStr k) = Some v"
      unfolding split last_value_def
      using map_of_rev_no_key [OF rest] ik iv
      by (simp add: entry_pairs_def map_add_def)
    with cfg wf' show ?thesis by blast
  qed
qed

lemma set_config_outcome:
  assumes "set_config c k v r w = (Inr (), r1, w1)"
  shows "\<exists>cfg. set_configuration_key (if self_config r = JNull then JList [] else self_config r) k v = Inr cfg
           \<and> self_config r1 = cfg"
  using assms
  by (auto simp: set_config_def update_configuration_def Let_def
      split: prod.splits sum.splits if_splits)

text \<open>
  Claim C6, as amended. On a proxy whose configuration cache is unset, or is a list of
  configuration entries at most one of which has the key \<open>k\<close>: after
  \<open>set_config(k, v)\<close> has returned, \<open>get_config(k)\<close> returns \<open>v\<close>, issues no call
  and leaves the proxy as it is.
\<close>

theorem set_then_get_config:
  assumes cache: "single_key_cache k (self_config r)"
      and ok: "set_config c k v r w = (Inr (), r1, w1)"
  shows "get_config c k r1 w1 = (Inr v, r1, w1)"
proof -
  define es where "es = (case self_config r of JList entries \<Rightarrow> entries | _ \<Rightarrow> [])"
  from cache have c0: "(if self_config r = JNull then JList [] else self_config r) = JList es"
    and wf: "list_all config_entry es"
    and one: "length (filter (\<lambda>e. entry_key e = JStr k) es) \<le> 1"
    by (auto simp: single_key_cache_def es_def split: json.splits)
  from set_config_outcome [OF ok] c0 obtain cfg where
    s: "set_configuration_key (JList es) k v = Inr cfg" and c1: "self_config r1 = cfg"
    by auto
  from set_configuration_key_entries [OF wf one s] obtain es' where
    cfg: "cfg = JList es'" and wf': "list_all config_entry es'"
    and lv: "last_value es' (JStr k) = Some v" by blast
  have d: "config_list_to_dict (JList es') = Inr (dict_update [] (entry_pairs es'))"
    using wf' by (simp add: config_list_to_dict_def dict_of_entries_total)
  have m: "map_of (dict_update [] (entry_pairs es')) (JStr k) = Some v"
    using lv by (simp add: map_of_dict_update last_value_def)
  show ?thesis
    using c1 cfg d m by (simp add: get_config_def configuration_def)
qed

theorem set_then_get_config_witness:
  "Repository ''myrepo'' myrepo_single_keys = Inr (listed ''myrepo'' myrepo_single_keys single_keys) \<and>
   single_key_cache ''VCS_TARGET_DIR'' (self_config (listed ''myrepo'' myrepo_single_keys single_keys)) \<and>
   fst (set_config demo ''VCS_TARGET_DIR'' (JStr ''new/'')
          (listed ''myrepo'' myrepo_single_keys single_keys) (start myrepo_single_keys)) = Inr () \<and>
   get_config demo ''VCS_TARGET_DIR''
     (fst (snd (set_config demo ''VCS_TARGET_DIR'' (JStr ''new/'')
                  (listed ''myrepo'' myrepo_single_keys single_keys) (start myrepo_single_keys))))
     (snd (snd (set_config demo ''VCS_TARGET_DIR'' (JStr ''new/'')
                  (listed ''myrepo'' myrepo_single_keys single_keys) (start myrepo_single_keys)))) =
     (Inr (JStr ''new/''),
      snd (set_config demo ''VCS_TARGET_DIR'' (JStr ''new/'')
             (listed ''myrepo'' myrepo_single_keys single_keys) (start myrepo_single_keys)))"
proof -
  let ?p = "listed ''myrepo'' myrepo_single_keys single_keys"
  let ?s = "set_config demo ''VCS_TARGET_DIR'' (JStr ''new/'') ?p (start myrepo_single_keys)"
  have built: "Repository ''myrepo'' myrepo_single_keys = Inr ?p" by code_simp
  have cache: "single_key_cache ''VCS_TARGET_DIR'' (self_config ?p)" by code_simp
  have ret: "fst ?s = Inr ()" by code_simp
  then have ok: "?s = (Inr (), fst (snd ?s), snd (snd ?s))"
    by (cases ?s) auto
  from set_then_get_config [OF cache ok]
  have "get_config demo ''VCS_TARGET_DIR'' (fst (snd ?s)) (snd (snd ?s)) =
          (Inr (JStr ''new/''), snd ?s)"
    by simp
  with built cache ret show ?thesis by blast
qed

text \<open>
  The claim as stated fails on a configuration list that holds a key twice:
  \<open>_set_configuration_key\<close> writes the first entry with the key, \<open>_config_list_to_dict\<close>
  reads the last.
\<close>

theorem set_then_get_config_counterexample:
  "Repository ''myrepo'' myrepo_duplicate_keys =
     Inr (listed ''myrepo'' myrepo_duplicate_keys duplicate_keys) \<and>
   fst (set_config demo ''VCS_TARGET_DIR'' (JStr ''new/'')
          (listed ''myrepo'' myrepo_duplicate_keys duplicate_keys) (start myrepo_duplicate_keys)) = Inr () \<and>
   fst (get_config demo ''VCS_TARGET_DIR''
          (fst (snd (set_config demo ''VCS_TARGET_DIR'' (JStr ''new/'')
                       (listed ''myrepo'' myrepo_duplicate_keys duplicate_keys)
                       (start myrepo_duplicate_keys))))
          (snd (snd (set_config demo ''VCS_TARGET_DIR'' (JStr ''new/'')
                       (listed ''myrepo'' myrepo_duplicate_keys duplicate_keys)
                       (start myrepo_duplicate_keys))))) = Inr (JStr ''lib/'')"
proof -
  let ?p = "listed ''myrepo'' myrepo_duplicate_keys duplicate_keys"
  let ?s = "set_config demo ''VCS_TARGET_DIR'' (JStr ''new/'') ?p (start myrepo_duplicate_keys)"
  have built: "Repository ''myrepo'' myrepo_duplicate_keys = Inr ?p" by code_simp
  have ret: "fst ?s = Inr ()" by code_simp
  have got: "fst (get_config demo ''VCS_TARGET_DIR'' (fst (snd ?s)) (snd (snd ?s))) = Inr (JStr ''lib/'')"
    by code_simp
  from built ret got show ?thesis by blast
qed

section \<open>Create\<close>

text \<open>\<open>update\<close> on the shapes a reply can have: a dict is merged, an empty list or
  string changes nothing, a sequence of pairs is stored pair by pair (a pair being a
  list, a string or a dict of two items), and what was stored before a refused
  element stays.\<close>

lemma py_update_runs:
  "py_update (JObj [(JStr ''a'', JNull)]) (JObj [(JStr ''b'', JNull), (JStr ''a'', JStr ''x'')]) =
     (Inr (), JObj [(JStr ''a'', JStr ''x''), (JStr ''b'', JNull)])"
  "py_update (JObj [(JStr ''a'', JNull)]) (JList []) = (Inr (), JObj [(JStr ''a'', JNull)])"
  "py_update (JObj [(JStr ''a'', JNull)]) (JStr []) = (Inr (), JObj [(JStr ''a'', JNull)])"
  "py_update (JObj [(JStr ''a'', JNull)])
     (JList [JList [JStr ''a'', JBool True], JStr ''bc'', JObj [(JStr ''d'', JNull), (JStr ''e'', JNull)],
             JList [JNull, JStr ''x'']]) =
     (Inr (), JObj [(JStr ''a'', JBool True), (JStr ''b'', JStr ''c''), (JStr ''d'', JStr ''e''),
                    (JNull, JStr ''x'')])"
  "py_update (JObj []) (JList [JList [JStr ''a'', JNull], JBool True]) =
     (Inl TypeError, JObj [(JStr ''a'', JNull)])"
  "py_update (JObj []) (JList [JList [JStr ''a'', JNull], JList [JStr ''b'']]) =
     (Inl ValueError, JObj [(JStr ''a'', JNull)])"
  "py_update (JObj []) (JList [JList [JList [], JNull]]) = (Inl TypeError, JObj [])"
  "py_update (JObj []) (JStr ''ab'') = (Inl ValueError, JObj [])"
  "py_update (JObj []) JNull = (Inl TypeError, JObj [])"
  "py_update (JObj []) (JBool True) = (Inl TypeError, JObj [])"
  "py_update (JList [JNull]) (JObj []) = (Inl AttributeError, JList [JNull])"
  by (simp_all add: dict_update_def py_pair_def)

text \<open>
  Claim C4, as amended. \<open>create\<close> that returns has issued exactly its POST, and
  leaves the snapshot not invalidated but set from the reply: the \<open>repository\<close> value
  of the reply, merged by \<open>update\<close> into the posted data when the proxy held a truthy
  snapshot, and that value itself otherwise. The snapshot is unfetched (\<open>None\<close>)
  afterwards only when the proxy held no truthy snapshot and the \<open>repository\<close> of the
  reply is \<open>null\<close>; in every other case an attribute read issues no call and reads the
  snapshot \<open>create\<close> left.
\<close>

theorem create_keeps_reply:
  assumes ok: "create c u v cfg role typ r w = (Inr (), r', w')"
  shows "\<exists>posted resp j result.
           calls w' = calls w @
             [PostObjAsJson ''repository''
                (JObj [(JStr ''repository'', JStr (self_name r)), (JStr ''data'', posted)])
                (Some ''application/json'')] \<and>
           post_obj_as_json c ''repository''
             (JObj [(JStr ''repository'', JStr (self_name r)), (JStr ''data'', posted)])
             (Some ''application/json'') (remote w) = (Inr resp, remote w') \<and>
           body_json resp = Some j \<and> field j ''repository'' = Some result \<and>
           (if truthy (self_data r) then py_update posted result = (Inr (), self_data r')
            else self_data r' = result) \<and>
           (self_data r' = JNull \<longleftrightarrow> \<not> truthy (self_data r) \<and> result = JNull) \<and>
           (self_data r' \<noteq> JNull \<longrightarrow>
              (\<forall>item. get_item c item JNull False r' w' =
                        (py_get (self_data r') item JNull, r', w')))"
proof -
  obtain pres r1 where p: "create_payload u v cfg role typ r = (pres, r1)"
    by (cases "create_payload u v cfg role typ r")
  from ok p obtain repo where pres: "pres = Inr repo"
    by (cases pres) (simp_all add: create_def)
  from p pres have pp: "create_payload u v cfg role typ r = (Inr repo, r1)" by simp
  have pr1: "truthy repo" and r1: "truthy (self_data r) \<longrightarrow> self_data r1 = repo"
    and r1': "\<not> truthy (self_data r) \<longrightarrow> r1 = r"
    using create_payload_repo [OF pp] by simp_all
  let ?req = "JObj [(JStr ''repository'', JStr (self_name r)), (JStr ''data'', repo)]"
  obtain pr s where post: "post_obj_as_json c ''repository'' ?req (Some ''application/json'') (remote w) = (pr, s)"
    by (cases "post_obj_as_json c ''repository'' ?req (Some ''application/json'') (remote w)")
  let ?w = "\<lparr>remote = s, calls = calls w @ [PostObjAsJson ''repository'' ?req (Some ''application/json'')]\<rparr>"
  from ok p pres post obtain resp where pr: "pr = Inr resp"
    by (cases pr) (simp_all add: create_def connection_post_obj_as_json_def)
  from ok p pres post pr obtain j where j: "body_json resp = Some j"
    by (cases "body_json resp") (simp_all add: create_def connection_post_obj_as_json_def)
  from ok p pres post pr j obtain result where res: "py_getitem j ''repository'' = Inr result"
    by (cases "py_getitem j ''repository''") (simp_all add: create_def connection_post_obj_as_json_def)
  from ok p pres post pr j res have st: "create_store result r1 = (Inr (), r')" and w': "w' = ?w"
    by (auto simp: create_def connection_post_obj_as_json_def split: prod.splits)
  have tr: "truthy (self_data r1) = truthy (self_data r)"
    using pr1 r1 r1' by (cases "truthy (self_data r)") simp_all
  have data: "if truthy (self_data r) then py_update repo result = (Inr (), self_data r')
            else self_data r' = result"
    using st tr r1 by (auto simp: create_store_def split: prod.splits if_splits)
  have null: "self_data r' = JNull \<longleftrightarrow> \<not> truthy (self_data r) \<and> result = JNull"
  proof (cases "truthy (self_data r)")
    case True
    with data have "py_update repo result = (Inr (), self_data r')" by simp
    from py_update_returned [OF this] obtain d' where "self_data r' = JObj d'" by blast
    with True show ?thesis by simp
  next
    case False
    with data show ?thesis by simp
  qed
  have reads: "self_data r' \<noteq> JNull \<longrightarrow>
              (\<forall>item. get_item c item JNull False r' w' =
                        (py_get (self_data r') item JNull, r', w'))"
    by (simp add: get_item_def)
  have posted: "post_obj_as_json c ''repository'' ?req (Some ''application/json'') (remote w) =
      (Inr resp, remote w')"
    using post pr w' by simp
  have issued: "calls w' = calls w @ [PostObjAsJson ''repository'' ?req (Some ''application/json'')]"
    using w' by simp
  have fr: "field j ''repository'' = Some result"
    using res by (simp add: getitem_field)
  from issued posted j fr data null reads show ?thesis by blast
qed

theorem create_keeps_reply_witness:
  "fst (create demo ''https://example.com/org/myrepo.git'' ''6IT'' None ''SOURCE'' ''GITHUB''
          (unfetched ''myrepo'') (start JNull)) = Inr () \<and>
   (\<exists>posted (resp :: response) j result.
      calls (snd (snd (create demo ''https://example.com/org/myrepo.git'' ''6IT'' None ''SOURCE''
                         ''GITHUB'' (unfetched ''myrepo'') (start JNull)))) =
        calls (start JNull) @
          [PostObjAsJson ''repository''
             (JObj [(JStr ''repository'', JStr ''myrepo''), (JStr ''data'', posted)])
             (Some ''application/json'')] \<and>
      body_json resp = Some j \<and> field j ''repository'' = Some result \<and>
      self_data (fst (snd (create demo ''https://example.com/org/myrepo.git'' ''6IT'' None
                             ''SOURCE'' ''GITHUB'' (unfetched ''myrepo'') (start JNull)))) = result) \<and>
   fst (create demo ''https://example.com/org/myrepo.git'' ''6IT'' None ''SOURCE'' ''GITHUB''
          (holding ''myrepo'' myrepo_on_develop) (start JNull)) = Inr () \<and>
   (\<exists>posted result.
      py_update posted result =
        (Inr (), self_data (fst (snd (create demo ''https://example.com/org/myrepo.git'' ''6IT'' None
                             ''SOURCE'' ''GITHUB'' (holding ''myrepo'' myrepo_on_develop) (start JNull)))))) \<and>
   self_data (fst (snd (create demo ''https://example.com/org/myrepo.git'' ''6IT'' None
                             ''SOURCE'' ''GITHUB'' (holding ''myrepo'' myrepo_on_develop) (start JNull)))) \<noteq>
     JNull"
proof -
  let ?c = "create demo ''https://example.com/org/myrepo.git'' ''6IT'' None ''SOURCE'' ''GITHUB''
          (unfetched ''myrepo'') (start JNull)"
  have ret: "fst ?c = Inr ()" by code_simp
  then have ok: "?c = (Inr (), fst (snd ?c), snd (snd ?c))"
    by (cases ?c) auto
  have nt: "\<not> truthy (self_data (unfetched ''myrepo''))"
    by (simp add: unfetched_def)
  from create_keeps_reply [OF ok] obtain posted and resp :: response and j result where
    c: "calls (snd (snd ?c)) =
        calls (start JNull) @
          [PostObjAsJson ''repository''
             (JObj [(JStr ''repository'', JStr (self_name (unfetched ''myrepo''))), (JStr ''data'', posted)])
             (Some ''application/json'')]"
    and bj: "body_json resp = Some j"
    and f: "field j ''repository'' = Some result"
    and dd: "if truthy (self_data (unfetched ''myrepo''))
             then py_update posted result = (Inr (), self_data (fst (snd ?c)))
             else self_data (fst (snd ?c)) = result"
    by blast
  from dd nt have d: "self_data (fst (snd ?c)) = result" by simp
  from c have c': "calls (snd (snd ?c)) =
        calls (start JNull) @
          [PostObjAsJson ''repository''
             (JObj [(JStr ''repository'', JStr ''myrepo''), (JStr ''data'', posted)])
             (Some ''application/json'')]"
    by (simp add: unfetched_def)
  from c' bj f d have "\<exists>posted (resp :: response) j result.
      calls (snd (snd ?c)) =
        calls (start JNull) @
          [PostObjAsJson ''repository''
             (JObj [(JStr ''repository'', JStr ''myrepo''), (JStr ''data'', posted)])
             (Some ''application/json'')] \<and>
      body_json resp = Some j \<and> field j ''repository'' = Some result \<and>
      self_data (fst (snd ?c)) = result"
    by blast
  with ret have first: "fst ?c = Inr () \<and> (\<exists>posted (resp :: response) j result.
      calls (snd (snd ?c)) =
        calls (start JNull) @
          [PostObjAsJson ''repository''
             (JObj [(JStr ''repository'', JStr ''myrepo''), (JStr ''data'', posted)])
             (Some ''application/json'')] \<and>
      body_json resp = Some j \<and> field j ''repository'' = Some result \<and>
      self_data (fst (snd ?c)) = result)"
    by blast
  let ?h = "create demo ''https://example.com/org/myrepo.git'' ''6IT'' None ''SOURCE'' ''GITHUB''
          (holding ''myrepo'' myrepo_on_develop) (start JNull)"
  have ret': "fst ?h = Inr ()" by code_simp
  then have ok': "?h = (Inr (), fst (snd ?h), snd (snd ?h))"
    by (cases ?h) auto
  have tr: "truthy (self_data (holding ''myrepo'' myrepo_on_develop))"
    by (simp add: holding_def myrepo_on_develop_def)
  from create_keeps_reply [OF ok'] obtain posted' result' where
    dd': "if truthy (self_data (holding ''myrepo'' myrepo_on_develop))
          then py_update posted' result' = (Inr (), self_data (fst (snd ?h)))
          else self_data (fst (snd ?h)) = result'"
    and nn: "self_data (fst (snd ?h)) = JNull \<longleftrightarrow>
          \<not> truthy (self_data (holding ''myrepo'' myrepo_on_develop)) \<and> result' = JNull"
    by blast
  from dd' tr have m: "\<exists>posted result. py_update posted result = (Inr (), self_data (fst (snd ?h)))"
    by auto
  from nn tr have k: "self_data (fst (snd ?h)) \<noteq> JNull" by simp
  from first ret' m k show ?thesis by blast
qed

text \<open>
  The claim as stated fails: after \<open>create\<close> on a new proxy the snapshot is the
  object the service returned, and the next read of \<open>status\<close> is answered from it with
  no fetch.
\<close>

theorem create_keeps_reply_counterexample:
  "fst (create demo ''https://example.com/org/myrepo.git'' ''6IT'' None ''SOURCE'' ''GITHUB''
          (unfetched ''myrepo'') (start JNull)) = Inr () \<and>
   \<not> cleared (fst (snd (create demo ''https://example.com/org/myrepo.git'' ''6IT'' None
                           ''SOURCE'' ''GITHUB'' (unfetched ''myrepo'') (start JNull)))) \<and>
   status demo
     (fst (snd (create demo ''https://example.com/org/myrepo.git'' ''6IT'' None
                  ''SOURCE'' ''GITHUB'' (unfetched ''myrepo'') (start JNull))))
     (snd (snd (create demo ''https://example.com/org/myrepo.git'' ''6IT'' None
                  ''SOURCE'' ''GITHUB'' (unfetched ''myrepo'') (start JNull)))) =
     (Inr (JStr ''CREATED''),
      snd (create demo ''https://example.com/org/myrepo.git'' ''6IT'' None
             ''SOURCE'' ''GITHUB'' (unfetched ''myrepo'') (start JNull)))"
proof -
  let ?c = "create demo ''https://example.com/org/myrepo.git'' ''6IT'' None ''SOURCE'' ''GITHUB''
          (unfetched ''myrepo'') (start JNull)"
  have ret: "fst ?c = Inr ()" by code_simp
  have kept: "\<not> cleared (fst (snd ?c))" by code_simp
  have rd: "status demo (fst (snd ?c)) (snd (snd ?c)) = (Inr (JStr ''CREATED''), snd ?c)"
    by code_simp
  from ret kept rd show ?thesis by blast
qed

section \<open>Create that fails\<close>

lemma attempted_fields:
  "map_of (rev (attempted name u v role typ)) key =
     (if key = JStr ''rid'' then Some (JStr name)
      else if key = JStr ''name'' then Some (JStr name)
      else if key = JStr ''vsid'' then Some (JStr v)
      else if key = JStr ''url'' then Some (JStr u)
      else if key = JStr ''role'' then Some (JStr role)
      else if key = JStr ''type'' then Some (JStr typ)
      else if key = JStr ''connection'' then Some (JStr ''ssl'')
      else None)"
  by (simp add: attempted_def)

lemma create_fields_attempted:
  "create_fields name u v role typ = JObj (attempted name u v role typ)"
  by (simp add: create_fields_def attempted_def)

text \<open>
  Claim C10, as amended. On a proxy holding a non-empty snapshot \<open>d\<close>, when \<open>create\<close>
  has built its payload and the POST of it raises, \<open>create\<close> raises the translated
  error and the snapshot is the posted data: \<open>d\<close> with \<open>rid\<close> and \<open>name\<close> set to the
  repository name, \<open>vsid\<close>, \<open>url\<close>, \<open>role\<close>, \<open>type\<close> set to the arguments,
  \<open>connection\<close> set to \<open>ssl\<close> and, when a non-empty \<open>config\<close> was given, \<open>config\<close> set
  to the list of the existing configuration updated with it; every other field is as
  in \<open>d\<close>, and so is \<open>config\<close> when no \<open>config\<close> or an empty one was given.
\<close>

theorem create_failure_keeps_attempt:
  assumes snap: "self_data r = JObj d" "d \<noteq> []"
      and payload: "create_payload u v cfg role typ r = (Inr repo, r1)"
      and raised: "post_obj_as_json c ''repository''
                     (JObj [(JStr ''repository'', JStr (self_name r)), (JStr ''data'', repo)])
                     (Some ''application/json'') (remote w) = (Inl e0, s)"
  shows "create c u v cfg role typ r w =
           (Inl (translated e0), r1,
            \<lparr>remote = s,
              calls = calls w @
                [PostObjAsJson ''repository''
                   (JObj [(JStr ''repository'', JStr (self_name r)), (JStr ''data'', repo)])
                   (Some ''application/json'')]\<rparr>) \<and>
         self_data r1 = repo \<and>
         field repo ''rid'' = Some (JStr (self_name r)) \<and>
         field repo ''name'' = Some (JStr (self_name r)) \<and>
         field repo ''vsid'' = Some (JStr v) \<and>
         field repo ''url'' = Some (JStr u) \<and>
         field repo ''role'' = Some (JStr role) \<and>
         field repo ''type'' = Some (JStr typ) \<and>
         field repo ''connection'' = Some (JStr ''ssl'') \<and>
         (\<forall>cf. cfg = Some cf \<and> cf \<noteq> [] \<longrightarrow>
            (\<exists>old. config_list_to_dict
                     (case map_of d (JStr ''config'') of None \<Rightarrow> JList [] | Some x \<Rightarrow> x) = Inr old \<and>
                   field repo ''config'' = Some (config_dict_to_list (dict_update old cf)))) \<and>
         (cfg = None \<or> cfg = Some [] \<longrightarrow> field repo ''config'' = map_of d (JStr ''config'')) \<and>
         (\<exists>d'. repo = JObj d' \<and>
            (\<forall>k. k \<notin> {JStr ''rid'', JStr ''name'', JStr ''vsid'', JStr ''url'', JStr ''role'',
                        JStr ''type'', JStr ''connection'', JStr ''config''} \<longrightarrow>
                 map_of d' k = map_of d k))"
proof -
  let ?F = "attempted (self_name r) u v role typ"
  let ?d1 = "dict_update d ?F"
  have tr: "truthy (self_data r)" using snap by simp
  have u: "py_update (if truthy (self_data r) then self_data r else JObj [])
             (create_fields (self_name r) u v role typ) = (Inr (), JObj ?d1)"
    using snap by (simp add: create_fields_attempted)
  have m1: "map_of ?d1 key = (map_of d ++ map_of (rev ?F)) key" for key
    by (simp add: map_of_dict_update)
  note unf = create_payload_unfold [OF u, of cfg]
  have run: "create c u v cfg role typ r w =
           (Inl (translated e0), r1,
            \<lparr>remote = s,
              calls = calls w @
                [PostObjAsJson ''repository''
                   (JObj [(JStr ''repository'', JStr (self_name r)), (JStr ''data'', repo)])
                   (Some ''application/json'')]\<rparr>)"
    using payload raised by (simp add: create_def connection_post_obj_as_json_def)
  have same: "self_data r1 = repo"
    using create_payload_repo [OF payload] tr by simp
  show ?thesis
  proof (cases "case cfg of None \<Rightarrow> False | Some cf \<Rightarrow> cf \<noteq> []")
    case False
    with unf have "create_payload u v cfg role typ r =
        (Inr (JObj ?d1), if truthy (self_data r) then r\<lparr>self_data := JObj ?d1\<rparr> else r)"
      by simp
    with payload have repo: "repo = JObj ?d1" by simp
    have nocf: "\<forall>cf. \<not> (cfg = Some cf \<and> cf \<noteq> [])"
      using False by (cases cfg) auto
    have fld: "field repo key = (map_of d ++ map_of (rev ?F)) (JStr key)" for key
      by (simp add: repo m1)
    have cfgpart: "\<forall>cf. cfg = Some cf \<and> cf \<noteq> [] \<longrightarrow>
            (\<exists>old. config_list_to_dict
                     (case map_of d (JStr ''config'') of None \<Rightarrow> JList [] | Some x \<Rightarrow> x) = Inr old \<and>
                   field repo ''config'' = Some (config_dict_to_list (dict_update old cf)))"
      using nocf by blast
    have kept: "cfg = None \<or> cfg = Some [] \<longrightarrow> field repo ''config'' = map_of d (JStr ''config'')"
      by (simp add: fld attempted_fields map_add_def)
    have others: "\<forall>k. k \<notin> {JStr ''rid'', JStr ''name'', JStr ''vsid'', JStr ''url'', JStr ''role'',
                        JStr ''type'', JStr ''connection'', JStr ''config''} \<longrightarrow>
                 map_of ?d1 k = map_of d k"
      by (simp add: m1 attempted_fields map_add_def)
    with repo have rest: "\<exists>d'. repo = JObj d' \<and>
            (\<forall>k. k \<notin> {JStr ''rid'', JStr ''name'', JStr ''vsid'', JStr ''url'', JStr ''role'',
                        JStr ''type'', JStr ''connection'', JStr ''config''} \<longrightarrow>
                 map_of d' k = map_of d k)"
      by blast
    have ids: "field repo ''rid'' = Some (JStr (self_name r))"
      "field repo ''name'' = Some (JStr (self_name r))"
      "field repo ''vsid'' = Some (JStr v)"
      "field repo ''url'' = Some (JStr u)"
      "field repo ''role'' = Some (JStr role)"
      "field repo ''type'' = Some (JStr typ)"
      "field repo ''connection'' = Some (JStr ''ssl'')"
      by (simp_all add: fld attempted_fields map_add_def)
    from run same ids cfgpart kept rest show ?thesis by blast
  next
    case True
    then obtain cf where cf: "cfg = Some cf" "cf \<noteq> []"
      by (cases cfg) auto
    let ?existing = "case map_of ?d1 (JStr ''config'') of None \<Rightarrow> JList [] | Some x \<Rightarrow> x"
    have ex: "map_of ?d1 (JStr ''config'') = map_of d (JStr ''config'')"
      by (simp add: m1 attempted_fields map_add_def)
    from True unf have unf': "create_payload u v cfg role typ r =
       (case config_list_to_dict ?existing of
              Inl e \<Rightarrow> (Inl e, if truthy (self_data r) then r\<lparr>self_data := JObj ?d1\<rparr> else r)
            | Inr rc \<Rightarrow>
                (Inr (JObj (AList.update (JStr ''config'')
                        (config_dict_to_list (dict_update rc (case cfg of None \<Rightarrow> [] | Some cf \<Rightarrow> cf)))
                        ?d1)),
                 if truthy (self_data r)
                 then r\<lparr>self_data := JObj (AList.update (JStr ''config'')
                        (config_dict_to_list (dict_update rc (case cfg of None \<Rightarrow> [] | Some cf \<Rightarrow> cf)))
                        ?d1), self_config_shared := False\<rparr>
                 else r))"
      by simp
    from unf' payload obtain old where old: "config_list_to_dict ?existing = Inr old"
      by (cases "config_list_to_dict ?existing") simp_all
    with unf' payload cf have repo: "repo = JObj (AList.update (JStr ''config'')
                        (config_dict_to_list (dict_update old cf)) ?d1)"
      by simp
    let ?d2 = "AList.update (JStr ''config'') (config_dict_to_list (dict_update old cf)) ?d1"
    have m2: "map_of ?d2 k =
        (if k = JStr ''config'' then Some (config_dict_to_list (dict_update old cf))
         else (map_of d ++ map_of (rev ?F)) k)" for k
      by (simp add: update_conv' m1)
    have fld: "field repo key = map_of ?d2 (JStr key)" for key
      by (simp add: repo)
    have oldd: "config_list_to_dict
                     (case map_of d (JStr ''config'') of None \<Rightarrow> JList [] | Some x \<Rightarrow> x) = Inr old"
      using old by (simp add: ex)
    have cfgpart: "\<forall>cf. cfg = Some cf \<and> cf \<noteq> [] \<longrightarrow>
            (\<exists>old. config_list_to_dict
                     (case map_of d (JStr ''config'') of None \<Rightarrow> JList [] | Some x \<Rightarrow> x) = Inr old \<and>
                   field repo ''config'' = Some (config_dict_to_list (dict_update old cf)))"
      using cf oldd by (simp add: fld m2)
    have kept: "cfg = None \<or> cfg = Some [] \<longrightarrow> field repo ''config'' = map_of d (JStr ''config'')"
      using cf by simp
    have others: "\<forall>k. k \<notin> {JStr ''rid'', JStr ''name'', JStr ''vsid'', JStr ''url'', JStr ''role'',
                        JStr ''type'', JStr ''connection'', JStr ''config''} \<longrightarrow>
                 map_of ?d2 k = map_of d k"
      by (simp add: m2 attempted_fields map_add_def)
    with repo have rest: "\<exists>d'. repo = JObj d' \<and>
            (\<forall>k. k \<notin> {JStr ''rid'', JStr ''name'', JStr ''vsid'', JStr ''url'', JStr ''role'',
                        JStr ''type'', JStr ''connection'', JStr ''config''} \<longrightarrow>
                 map_of d' k = map_of d k)"
      by blast
    have ids: "field repo ''rid'' = Some (JStr (self_name r))"
      "field repo ''name'' = Some (JStr (self_name r))"
      "field repo ''vsid'' = Some (JStr v)"
      "field repo ''url'' = Some (JStr u)"
      "field repo ''role'' = Some (JStr role)"
      "field repo ''type'' = Some (JStr typ)"
      "field repo ''connection'' = Some (JStr ''ssl'')"
      by (simp_all add: fld m2 attempted_fields map_add_def)
    from run same ids cfgpart kept rest show ?thesis by blast
  qed
qed

theorem create_failure_keeps_attempt_witness:
  "self_data (holding ''myrepo'' myrepo_single_keys) = myrepo_single_keys \<and>
   fst (create demo ''https://example.com/org/new.git'' ''6IT''
          (Some [(JStr ''VCS_TARGET_DIR'', JStr ''lib/'')]) ''SOURCE'' ''GITHUB''
          (holding ''myrepo'' myrepo_single_keys) (start myrepo_created)) =
     Inl (GCTSRepoAlreadyExistsError already_exists_body) \<and>
   field (self_data (fst (snd (create demo ''https://example.com/org/new.git'' ''6IT''
          (Some [(JStr ''VCS_TARGET_DIR'', JStr ''lib/'')]) ''SOURCE'' ''GITHUB''
          (holding ''myrepo'' myrepo_single_keys) (start myrepo_created))))) ''url'' =
     Some (JStr ''https://example.com/org/new.git'') \<and>
   field (self_data (fst (snd (create demo ''https://example.com/org/new.git'' ''6IT''
          (Some [(JStr ''VCS_TARGET_DIR'', JStr ''lib/'')]) ''SOURCE'' ''GITHUB''
          (holding ''myrepo'' myrepo_single_keys) (start myrepo_created))))) ''config'' =
     Some (JList [JObj [(JStr ''key'', JStr ''CLIENT_VCS_CONNTYPE''), (JStr ''value'', JStr ''ssl'')],
                  JObj [(JStr ''key'', JStr ''VCS_TARGET_DIR''), (JStr ''value'', JStr ''lib/'')]]) \<and>
   fst (create demo ''https://example.com/org/new.git'' ''6IT'' None ''SOURCE'' ''GITHUB''
          (holding ''myrepo'' myrepo_single_keys) (start myrepo_created)) =
     Inl (GCTSRepoAlreadyExistsError already_exists_body) \<and>
   field (self_data (fst (snd (create demo ''https://example.com/org/new.git'' ''6IT'' None
          ''SOURCE'' ''GITHUB'' (holding ''myrepo'' myrepo_single_keys) (start myrepo_created)))))
       ''config'' =
     Some single_keys"
proof -
  let ?r = "holding ''myrepo'' myrepo_single_keys"
  let ?cfg = "Some [(JStr ''VCS_TARGET_DIR'', JStr ''lib/'')]"
  let ?u = "''https://example.com/org/new.git''"
  let ?p = "create_payload ?u ''6IT'' ?cfg ''SOURCE'' ''GITHUB'' ?r"
  let ?c = "create demo ?u ''6IT'' ?cfg ''SOURCE'' ''GITHUB'' ?r (start myrepo_created)"
  have snap: "self_data ?r = JObj [(JStr ''rid'', JStr ''myrepo''), (JStr ''name'', JStr ''myrepo''),
       (JStr ''status'', JStr ''READY''), (JStr ''config'', single_keys)]"
    by (simp add: holding_def myrepo_single_keys_def)
  have ne: "[(JStr ''rid'', JStr ''myrepo''), (JStr ''name'', JStr ''myrepo''),
       (JStr ''status'', JStr ''READY''), (JStr ''config'', single_keys)] \<noteq> []"
    by simp
  have built: "case fst ?p of Inl e \<Rightarrow> False | Inr repo \<Rightarrow> True" by code_simp
  then obtain repo r1 where payload: "?p = (Inr repo, r1)"
    by (cases ?p; cases "fst ?p") auto
  have raised: "post_obj_as_json demo ''repository''
       (JObj [(JStr ''repository'', JStr (self_name ?r)), (JStr ''data'', repo)])
       (Some ''application/json'') (remote (start myrepo_created)) =
       (Inl already_exists_error, myrepo_created)"
    by (simp add: demo_def demo_post_obj_as_json_def start_def myrepo_created_def)
  have tr: "translated already_exists_error = GCTSRepoAlreadyExistsError already_exists_body"
    by code_simp
  have cfgv: "config_dict_to_list (dict_update
       [(JStr ''CLIENT_VCS_CONNTYPE'', JStr ''ssl''), (JStr ''VCS_TARGET_DIR'', JStr ''src/'')]
       [(JStr ''VCS_TARGET_DIR'', JStr ''lib/'')]) =
     JList [JObj [(JStr ''key'', JStr ''CLIENT_VCS_CONNTYPE''), (JStr ''value'', JStr ''ssl'')],
            JObj [(JStr ''key'', JStr ''VCS_TARGET_DIR''), (JStr ''value'', JStr ''lib/'')]]"
    by code_simp
  have old: "config_list_to_dict single_keys =
       Inr [(JStr ''CLIENT_VCS_CONNTYPE'', JStr ''ssl''), (JStr ''VCS_TARGET_DIR'', JStr ''src/'')]"
    by code_simp
  note t = create_failure_keeps_attempt [OF snap ne payload raised]
  from t have run: "?c = (Inl (translated already_exists_error), r1,
       \<lparr>remote = myrepo_created,
          calls = calls (start myrepo_created) @
            [PostObjAsJson ''repository''
               (JObj [(JStr ''repository'', JStr (self_name ?r)), (JStr ''data'', repo)])
               (Some ''application/json'')]\<rparr>)"
    and same: "self_data r1 = repo"
    and fu: "field repo ''url'' = Some (JStr ?u)"
    by blast+
  from t have "\<exists>old. config_list_to_dict single_keys = Inr old \<and>
         field repo ''config'' =
           Some (config_dict_to_list (dict_update old [(JStr ''VCS_TARGET_DIR'', JStr ''lib/'')]))"
    by simp
  with old cfgv have fc: "field repo ''config'' =
     Some (JList [JObj [(JStr ''key'', JStr ''CLIENT_VCS_CONNTYPE''), (JStr ''value'', JStr ''ssl'')],
                  JObj [(JStr ''key'', JStr ''VCS_TARGET_DIR''), (JStr ''value'', JStr ''lib/'')]])"
    by simp
  have s0: "self_data ?r = myrepo_single_keys" by (simp add: holding_def)
  let ?p' = "create_payload ?u ''6IT'' None ''SOURCE'' ''GITHUB'' ?r"
  let ?c' = "create demo ?u ''6IT'' None ''SOURCE'' ''GITHUB'' ?r (start myrepo_created)"
  have built': "case fst ?p' of Inl e \<Rightarrow> False | Inr repo \<Rightarrow> True" by code_simp
  then obtain repo' r1' where payload': "?p' = (Inr repo', r1')"
    by (cases ?p'; cases "fst ?p'") auto
  have raised': "post_obj_as_json demo ''repository''
       (JObj [(JStr ''repository'', JStr (self_name ?r)), (JStr ''data'', repo')])
       (Some ''application/json'') (remote (start myrepo_created)) =
       (Inl already_exists_error, myrepo_created)"
    by (simp add: demo_def demo_post_obj_as_json_def start_def myrepo_created_def)
  note t' = create_failure_keeps_attempt [OF snap ne payload' raised']
  from t' have run': "?c' = (Inl (translated already_exists_error), r1',
       \<lparr>remote = myrepo_created,
          calls = calls (start myrepo_created) @
            [PostObjAsJson ''repository''
               (JObj [(JStr ''repository'', JStr (self_name ?r)), (JStr ''data'', repo')])
               (Some ''application/json'')]\<rparr>)"
    and same': "self_data r1' = repo'"
    by blast+
  from t' have "field repo' ''config'' =
      map_of [(JStr ''rid'', JStr ''myrepo''), (JStr ''name'', JStr ''myrepo''),
              (JStr ''status'', JStr ''READY''), (JStr ''config'', single_keys)] (JStr ''config'')"
    by blast
  then have fc': "field repo' ''config'' = Some single_keys" by simp
  from run tr same fu fc s0 run' same' fc' show ?thesis by simp
qed

text \<open>
  The claim as stated fails on a proxy whose snapshot is the empty object: \<open>create\<close>
  then works on a new dict, and after the failed POST the snapshot is still empty.
  And with a non-empty snapshot and \<open>config={}\<close> given, no \<open>config\<close> list is written.
\<close>

theorem create_failure_keeps_attempt_counterexample:
  "Repository ''myrepo'' (JObj []) = Inr (holding ''myrepo'' (JObj [])) \<and>
   fst (create demo ''https://example.com/org/myrepo.git'' ''6IT'' None ''SOURCE'' ''GITHUB''
          (holding ''myrepo'' (JObj [])) (start myrepo_created)) =
     Inl (GCTSRepoAlreadyExistsError already_exists_body) \<and>
   self_data (fst (snd (create demo ''https://example.com/org/myrepo.git'' ''6IT'' None ''SOURCE''
                          ''GITHUB'' (holding ''myrepo'' (JObj [])) (start myrepo_created)))) =
     JObj [] \<and>
   fst (create demo ''https://example.com/org/myrepo.git'' ''6IT'' (Some []) ''SOURCE'' ''GITHUB''
          (holding ''myrepo'' (JObj [(JStr ''branch'', JStr ''main'')])) (start myrepo_created)) =
     Inl (GCTSRepoAlreadyExistsError already_exists_body) \<and>
   field (self_data (fst (snd (create demo ''https://example.com/org/myrepo.git'' ''6IT'' (Some [])
                          ''SOURCE'' ''GITHUB'' (holding ''myrepo'' (JObj [(JStr ''branch'', JStr ''main'')]))
                          (start myrepo_created))))) ''config'' = None"
proof -
  let ?u = "''https://example.com/org/myrepo.git''"
  let ?c1 = "create demo ?u ''6IT'' None ''SOURCE'' ''GITHUB''
          (holding ''myrepo'' (JObj [])) (start myrepo_created)"
  let ?c2 = "create demo ?u ''6IT'' (Some []) ''SOURCE'' ''GITHUB''
          (holding ''myrepo'' (JObj [(JStr ''branch'', JStr ''main'')])) (start myrepo_created)"
  have b: "Repository ''myrepo'' (JObj []) = Inr (holding ''myrepo'' (JObj []))" by code_simp
  have e1: "fst ?c1 = Inl (GCTSRepoAlreadyExistsError already_exists_body)" by code_simp
  have d1: "self_data (fst (snd ?c1)) = JObj []" by code_simp
  have e2: "fst ?c2 = Inl (GCTSRepoAlreadyExistsError already_exists_body)" by code_simp
  have d2: "field (self_data (fst (snd ?c2))) ''config'' = None" by code_simp
  from b e1 d1 e2 d2 show ?thesis by blast
qed

section \<open>The cache after a change of the URL\<close>

text \<open>
  Claim C2 does not hold of \<open>set_url\<close>: on a proxy holding a snapshot, \<open>set_url\<close>
  posts the new URL and leaves the snapshot as it was, where \<open>clone\<close>, \<open>checkout\<close>,
  \<open>pull\<close>, \<open>delete\<close> and \<open>commit_transport\<close> call \<open>wipe_data\<close>. The \<open>url\<close> reader then
  answers, with no fetch, the URL the remote system no longer has.
\<close>

theorem set_url_leaves_stale_url:
  "fst (set_url demo ''https://example.com/org/other.git''
          (holding ''myrepo'' myrepo_on_develop) (start myrepo_on_develop)) =
     Inr (Some (json_response (JObj []))) \<and>
   fst (snd (set_url demo ''https://example.com/org/other.git''
               (holding ''myrepo'' myrepo_on_develop) (start myrepo_on_develop))) =
     holding ''myrepo'' myrepo_on_develop \<and>
   field (remote (snd (snd (set_url demo ''https://example.com/org/other.git''
                              (holding ''myrepo'' myrepo_on_develop) (start myrepo_on_develop)))))
     ''url'' = Some (JStr ''https://example.com/org/other.git'') \<and>
   url demo (holding ''myrepo'' myrepo_on_develop)
     (snd (snd (set_url demo ''https://example.com/org/other.git''
                  (holding ''myrepo'' myrepo_on_develop) (start myrepo_on_develop)))) =
     (Inr (JStr ''https://example.com/org/myrepo.git''), holding ''myrepo'' myrepo_on_develop,
      snd (snd (set_url demo ''https://example.com/org/other.git''
                  (holding ''myrepo'' myrepo_on_develop) (start myrepo_on_develop))))"
proof -
  let ?s = "set_url demo ''https://example.com/org/other.git''
          (holding ''myrepo'' myrepo_on_develop) (start myrepo_on_develop)"
  have a: "fst ?s = Inr (Some (json_response (JObj [])))" by code_simp
  have b: "fst (snd ?s) = holding ''myrepo'' myrepo_on_develop" by code_simp
  have c: "field (remote (snd (snd ?s))) ''url'' = Some (JStr ''https://example.com/org/other.git'')"
    by code_simp
  have d: "url demo (holding ''myrepo'' myrepo_on_develop) (snd (snd ?s)) =
     (Inr (JStr ''https://example.com/org/myrepo.git''), holding ''myrepo'' myrepo_on_develop,
      snd (snd ?s))"
    by code_simp
  from a b c d show ?thesis by blast
qed

end
